theory Spec2Isabelle
  imports Main "HOL-Library.Word" "HOL-Library.List_Lexorder"
begin

unbundle bit_operations_syntax

section \<open>Values exchanged with the libraries\<close>

text \<open>
  The converters of \<^verbatim>\<open>package streaming\<close> (second half of
  \<^verbatim>\<open>src/internal/cli/flags_redpanda.go\<close>) work on Go values. A byte slice and a
  Go string are both sequences of bytes; a \<^verbatim>\<open>float64\<close> is kept as its 64-bit
  IEEE 754 pattern; \<^verbatim>\<open>int128.Num\<close> is a 128-bit two's-complement word;
  \<^verbatim>\<open>int32\<close> fields are 32-bit words and Go's \<^verbatim>\<open>int\<close> is a 64-bit word
  wherever the code does arithmetic on it.
\<close>

type_synonym byte = "8 word"
type_synonym bytes = "byte list"
type_synonym float64 = "64 word"
type_synonym float32 = "32 word"
type_synonym Num = "128 word"

text \<open>
  Go's \<^verbatim>\<open>time.Time\<close>: the instant as Unix seconds (what \<^verbatim>\<open>t.Unix()\<close> returns)
  and the nanosecond within the second (a field of 30 bits in Go), with the offset east
  of UTC, in seconds, that the time's location has at that instant.
\<close>

record time_Time =
  unixSec :: "64 word"
  nsec :: "30 word"
  zoneOffset :: int

text \<open>\<^verbatim>\<open>*time.Location\<close>: only passed through to the parser.\<close>

datatype Location = Location nat

text \<open>
  The dynamic value \<^verbatim>\<open>val any\<close>: \<^verbatim>\<open>nil\<close>, the native types the type
  switches of the converters name, and \<open>AnyOther\<close> for every other dynamic type.
\<close>

datatype any =
    AnyNil
  | AnyBool bool
  | AnyInt "64 word" | AnyInt8 "8 word" | AnyInt16 "16 word" | AnyInt32 "32 word"
  | AnyInt64 "64 word"
  | AnyUint "64 word" | AnyUint8 "8 word" | AnyUint16 "16 word" | AnyUint32 "32 word"
  | AnyUint64 "64 word"
  | AnyFloat32 float32 | AnyFloat64 float64
  | AnyString bytes
  | AnyBytes bytes
  | AnyJSONNumber bytes
  | AnyArray "any list"
  | AnyObject "(bytes \<times> any) list"
  | AnyTime time_Time
  | AnyOther nat

text \<open>
  Errors as values. \<open>ExternalError\<close> stands for an error value made by a library
  (bloblang's coercions, the int128 package); the converters hand those on as they are.
  The others are the errors the converters build themselves, with the values their
  messages print.
\<close>

datatype error =
    errNullValue
  | ExternalError nat
  | ValueTooLong int int
  | InvalidUTF8
  | NotJSONArray
  | NotJSONObject
  | TimestampParseFailure bytes
  | PrecisionOverflow time_Time Num "32 word"
  | DateOutOfRange int

text \<open>
  What a call of \<^verbatim>\<open>ValidateAndConvert\<close> does: return \<^verbatim>\<open>nil\<close>, return an
  error, or panic (an index out of range in the buffer or in the power-of-ten table).
\<close>

datatype outcome = Ok | Err error | Panic

section \<open>Functions of other packages\<close>

text \<open>
  The converters call functions whose code is not part of the sources: bloblang's
  \<^verbatim>\<open>ValueAs...\<close> coercions, \<^verbatim>\<open>int128.Rescale\<close>, \<^verbatim>\<open>int128.FromFloat32\<close>,
  \<^verbatim>\<open>int128.FromFloat64\<close>, \<^verbatim>\<open>int128.FromString\<close>, \<^verbatim>\<open>Num.FitsInPrecision\<close>,
  \<^verbatim>\<open>gabs.Wrap(val).Bytes()\<close>, \<^verbatim>\<open>time.ParseInLocation\<close> with the layout
  \<^verbatim>\<open>time.RFC3339Nano\<close>, and \<^verbatim>\<open>snowflakeTimestampInt\<close>. They are parameters of
  the model: every theorem below holds for all of them, and the examples name the
  instance they run on.
\<close>

record externals =
  ValueAsBool :: "any \<Rightarrow> error + bool"
  ValueAsInt64 :: "any \<Rightarrow> error + 64 word"
  ValueAsFloat64 :: "any \<Rightarrow> error + float64"
  ValueAsBytes :: "any \<Rightarrow> error + bytes"
  ValueAsTimestamp :: "any \<Rightarrow> error + time_Time"
  Rescale :: "Num \<Rightarrow> 32 word \<Rightarrow> 32 word \<Rightarrow> error + Num"
  FromFloat32 :: "float32 \<Rightarrow> 32 word \<Rightarrow> 32 word \<Rightarrow> error + Num"
  FromFloat64 :: "float64 \<Rightarrow> 32 word \<Rightarrow> 32 word \<Rightarrow> error + Num"
  FromString :: "bytes \<Rightarrow> 32 word \<Rightarrow> 32 word \<Rightarrow> error + Num"
  FitsInPrecision :: "Num \<Rightarrow> 32 word \<Rightarrow> bool"
  gabsBytes :: "any \<Rightarrow> bytes"
  ParseInLocation :: "bytes \<Rightarrow> Location \<Rightarrow> error + time_Time"
  snowflakeTimestampInt :: "time_Time \<Rightarrow> 32 word \<Rightarrow> bool \<Rightarrow> Num"

subsection \<open>The int128 package\<close>

text \<open>
  Modelled from the spec: the int128 package is not part of the sources. The spec calls
  \<^verbatim>\<open>Num\<close> a 128-bit two's-complement integer built by \<^verbatim>\<open>FromInt64\<close> and
  \<^verbatim>\<open>FromUint64\<close> from the native integers: a signed 64-bit value is sign-extended,
  an unsigned one zero-extended.
\<close>

definition int128_FromInt64 :: "64 word \<Rightarrow> Num" where
  "int128_FromInt64 v = scast v"

definition int128_FromUint64 :: "64 word \<Rightarrow> Num" where
  "int128_FromUint64 v = ucast v"

text \<open>
  Modelled from the spec: \<^verbatim>\<open>ToInt64\<close> of the absent int128 package, the native
  64-bit integer of a \<^verbatim>\<open>Num\<close>: its low 64 bits.
\<close>

definition int128_ToInt64 :: "Num \<Rightarrow> 64 word" where
  "int128_ToInt64 v = ucast v"

text \<open>
  Modelled from the spec: \<^verbatim>\<open>Min\<close> and \<^verbatim>\<open>Max\<close> of the absent int128 package.
  They take two numbers and nothing else, so the comparison is the one of the signed
  128-bit values.
\<close>

definition int128_Less :: "Num \<Rightarrow> Num \<Rightarrow> bool" where
  "int128_Less a b = (sint a < sint b)"

definition int128_Min :: "Num \<Rightarrow> Num \<Rightarrow> Num" where
  "int128_Min a b = (if int128_Less a b then a else b)"

definition int128_Max :: "Num \<Rightarrow> Num \<Rightarrow> Num" where
  "int128_Max a b = (if int128_Less b a then a else b)"

text \<open>
  Modelled from the spec: \<^verbatim>\<open>ToBigEndian\<close> of the absent int128 package, fixed-width
  big-endian bytes. The call \<^verbatim>\<open>v.ToBigEndian()\<close> passes no precision, so the width
  is the full one, 16 bytes, most significant byte first.
\<close>

fun be_bytes :: "nat \<Rightarrow> int \<Rightarrow> bytes" where
  "be_bytes 0 x = []"
| "be_bytes (Suc n) x = be_bytes n (x div 256) @ [word_of_int (x mod 256)]"

definition int128_ToBigEndian :: "Num \<Rightarrow> bytes" where
  "int128_ToBigEndian v = be_bytes 16 (uint v)"

subsection \<open>Go's builtins and standard library\<close>

text \<open>
  Go's integer division truncates towards zero; HOL's \<open>div\<close> rounds down.
\<close>

definition go_div :: "int \<Rightarrow> int \<Rightarrow> int" where
  "go_div a b = sgn a * sgn b * (\<bar>a\<bar> div \<bar>b\<bar>)"

text \<open>The operator \<^verbatim>\<open>/\<close> on \<^verbatim>\<open>int64\<close>, for a divisor that is not zero.\<close>

definition int64_div :: "64 word \<Rightarrow> 64 word \<Rightarrow> 64 word" where
  "int64_div a b = word_of_int (go_div (sint a) (sint b))"

text \<open>
  \<^verbatim>\<open>float64\<close>: a pattern is a NaN when its exponent bits are all set and its
  fraction is not zero. The builtins \<^verbatim>\<open>min\<close> and \<^verbatim>\<open>max\<close> return a NaN when
  an argument is one, and otherwise order the values with negative zero below positive
  zero (the Go language specification); on the patterns that order is the one of
  \<open>float_key\<close>, sign and magnitude.
\<close>

definition float_magnitude :: "float64 \<Rightarrow> int" where
  "float_magnitude x = uint (x AND 0x7FFFFFFFFFFFFFFF)"

definition isNaN :: "float64 \<Rightarrow> bool" where
  "isNaN x = (float_magnitude x > 0x7FF0000000000000)"

definition float_key :: "float64 \<Rightarrow> int" where
  "float_key x = (if bit x 63 then - float_magnitude x - 1 else float_magnitude x)"

definition go_min :: "float64 \<Rightarrow> float64 \<Rightarrow> float64" where
  "go_min x y =
     (if isNaN y then y else if isNaN x then x
      else if float_key y < float_key x then y else x)"

definition go_max :: "float64 \<Rightarrow> float64 \<Rightarrow> float64" where
  "go_max x y =
     (if isNaN y then y else if isNaN x then x
      else if float_key x < float_key y then y else x)"

text \<open>
  \<^verbatim>\<open>bytes.Compare\<close>: lexicographic comparison of two byte sequences, bytes compared
  as unsigned numbers; the result is -1, 0 or 1.
\<close>

fun bytes_Compare :: "bytes \<Rightarrow> bytes \<Rightarrow> int" where
  "bytes_Compare [] [] = 0"
| "bytes_Compare [] (y # ys) = -1"
| "bytes_Compare (x # xs) [] = 1"
| "bytes_Compare (x # xs) (y # ys) =
     (if x < y then -1 else if y < x then 1 else bytes_Compare xs ys)"

text \<open>
  \<^verbatim>\<open>utf8.Valid\<close>: the bytes are a sequence of well-formed UTF-8 encodings (no
  overlong forms, no surrogates, nothing above U+10FFFF).
\<close>

definition cont :: "byte \<Rightarrow> bool" where
  "cont b = (0x80 \<le> b \<and> b \<le> 0xBF)"

fun utf8_Valid :: "bytes \<Rightarrow> bool" where
  "utf8_Valid [] = True"
| "utf8_Valid (a # rest) =
     (if a < 0x80 then utf8_Valid rest
      else if 0xC2 \<le> a \<and> a \<le> 0xDF then
        (case rest of b # r \<Rightarrow> cont b \<and> utf8_Valid r | _ \<Rightarrow> False)
      else if 0xE0 \<le> a \<and> a \<le> 0xEF then
        (case rest of b # c # r \<Rightarrow>
           (if a = 0xE0 then 0xA0 \<le> b \<and> b \<le> 0xBF
            else if a = 0xED then 0x80 \<le> b \<and> b \<le> 0x9F
            else cont b) \<and> cont c \<and> utf8_Valid r
         | _ \<Rightarrow> False)
      else if 0xF0 \<le> a \<and> a \<le> 0xF4 then
        (case rest of b # c # d # r \<Rightarrow>
           (if a = 0xF0 then 0x90 \<le> b \<and> b \<le> 0xBF
            else if a = 0xF4 then 0x80 \<le> b \<and> b \<le> 0x8F
            else cont b) \<and> cont c \<and> cont d \<and> utf8_Valid r
         | _ \<Rightarrow> False)
      else False)"

text \<open>
  \<^verbatim>\<open>time.Time\<close>: \<^verbatim>\<open>UTC()\<close> and \<^verbatim>\<open>In(time.UTC)\<close> keep the instant and set
  the location to UTC. The clock and calendar readers work on the seconds since the
  epoch shifted by the zone offset; \<^verbatim>\<open>Year()\<close> is the year of the proleptic
  Gregorian calendar (year 0 is 1 BC), computed from the day number: eras of 400 years
  (146097 days) that start on March 1 of year 0, the year within the era, and the day
  within that year, whose days from 306 on are January and February of the next
  calendar year.
\<close>

definition time_UTC :: "time_Time \<Rightarrow> time_Time" where
  "time_UTC t = t\<lparr>zoneOffset := 0\<rparr>"

definition localSec :: "time_Time \<Rightarrow> int" where
  "localSec t = sint (unixSec t) + zoneOffset t"

definition time_Unix :: "time_Time \<Rightarrow> 64 word" where
  "time_Unix t = unixSec t"

definition time_Hour :: "time_Time \<Rightarrow> int" where
  "time_Hour t = (localSec t mod 86400) div 3600"

definition time_Minute :: "time_Time \<Rightarrow> int" where
  "time_Minute t = (localSec t mod 3600) div 60"

definition time_Second :: "time_Time \<Rightarrow> int" where
  "time_Second t = localSec t mod 60"

definition time_Nanosecond :: "time_Time \<Rightarrow> int" where
  "time_Nanosecond t = uint (nsec t)"

definition eraOfDays :: "int \<Rightarrow> int" where
  "eraOfDays days = (days + 719468) div 146097"

definition dayOfEra :: "int \<Rightarrow> int" where
  "dayOfEra days = (days + 719468) mod 146097"

definition yearOfEra :: "int \<Rightarrow> int" where
  "yearOfEra doe = (doe - doe div 1460 + doe div 36524 - doe div 146096) div 365"

definition dayOfYear :: "int \<Rightarrow> int" where
  "dayOfYear doe = doe - (365 * yearOfEra doe + yearOfEra doe div 4 - yearOfEra doe div 100)"

definition year_of_days :: "int \<Rightarrow> int" where
  "year_of_days days =
     yearOfEra (dayOfEra days) + eraOfDays days * 400
       + (if dayOfYear (dayOfEra days) < 306 then 0 else 1)"

definition time_Year :: "time_Time \<Rightarrow> int" where
  "time_Year t = year_of_days (localSec t div 86400)"

section \<open>The column buffer\<close>

text \<open>
  \<^verbatim>\<open>parquet.Value\<close>, as the constructors the buffers call; \<open>Level v r d c\<close> is
  \<^verbatim>\<open>v.Level(r, d, c)\<close>.
\<close>

datatype parquet_Value =
    NullValue
  | BooleanValue bool
  | Int32Value "32 word"
  | Int64Value "64 word"
  | DoubleValue float64
  | ByteArrayValue bytes
  | FixedLenByteArrayValue bytes
  | Level parquet_Value int int "64 word"

text \<open>
  \<^verbatim>\<open>typedBufferImpl\<close> with its two specializations \<^verbatim>\<open>int64Buffer\<close> and
  \<^verbatim>\<open>int32Buffer\<close>, which embed it and override \<^verbatim>\<open>WriteInt128\<close> only: the
  field \<open>kind\<close> says which of the three a buffer is.
\<close>

datatype bufferKind = typedBufferImpl | int64Buffer | int32Buffer

record typedBuffer =
  kind :: bufferKind
  matrix :: "parquet_Value list"
  columnIndex :: "64 word"
  rowWidth :: "64 word"
  currentRow :: "64 word"

text \<open>
  \<^verbatim>\<open>WriteValue\<close>: the index \<^verbatim>\<open>(b.currentRow*b.rowWidth)+b.columnIndex\<close> is
  computed on 64-bit integers; an index outside the matrix panics (\<open>None\<close>), and the
  row cursor moves only after the store.
\<close>

definition cellIndex :: "typedBuffer \<Rightarrow> int" where
  "cellIndex b = sint (currentRow b * rowWidth b + columnIndex b)"

definition WriteValue :: "typedBuffer \<Rightarrow> parquet_Value \<Rightarrow> typedBuffer option" where
  "WriteValue b v =
     (let i = cellIndex b in
      if 0 \<le> i \<and> i < int (length (matrix b))
      then Some (b\<lparr>matrix := (matrix b)[nat i := v], currentRow := currentRow b + 1\<rparr>)
      else None)"

definition WriteNull :: "typedBuffer \<Rightarrow> typedBuffer option" where
  "WriteNull b = WriteValue b NullValue"

definition WriteInt128 :: "typedBuffer \<Rightarrow> Num \<Rightarrow> typedBuffer option" where
  "WriteInt128 b v =
     (case kind b of
        typedBufferImpl \<Rightarrow>
          WriteValue b (Level (FixedLenByteArrayValue (int128_ToBigEndian v)) 0 1 (columnIndex b))
      | int64Buffer \<Rightarrow>
          WriteValue b (Level (Int64Value (int128_ToInt64 v)) 0 1 (columnIndex b))
      | int32Buffer \<Rightarrow>
          WriteValue b (Level (Int32Value (ucast (int128_ToInt64 v))) 0 1 (columnIndex b)))"

definition WriteBool :: "typedBuffer \<Rightarrow> bool \<Rightarrow> typedBuffer option" where
  "WriteBool b v = WriteValue b (Level (BooleanValue v) 0 1 (columnIndex b))"

definition WriteFloat64 :: "typedBuffer \<Rightarrow> float64 \<Rightarrow> typedBuffer option" where
  "WriteFloat64 b v = WriteValue b (Level (DoubleValue v) 0 1 (columnIndex b))"

definition WriteBytes :: "typedBuffer \<Rightarrow> bytes \<Rightarrow> typedBuffer option" where
  "WriteBytes b v = WriteValue b (Level (ByteArrayValue v) 0 1 (columnIndex b))"

definition Prepare ::
  "typedBuffer \<Rightarrow> parquet_Value list \<Rightarrow> 64 word \<Rightarrow> 64 word \<Rightarrow> typedBuffer" where
  "Prepare b m ci rw = b\<lparr>currentRow := 0, matrix := m, columnIndex := ci, rowWidth := rw\<rparr>"

definition Reset :: "typedBuffer \<Rightarrow> typedBuffer" where
  "Reset b = Prepare b [] 0 0"

section \<open>The statistics buffer\<close>

text \<open>
  Modelled from the spec: the declaration of \<^verbatim>\<open>statsBuffer\<close> is not part of the
  sources. Its fields are the ones the converters assign and the spec lists; the null
  count is a count of cells and \<^verbatim>\<open>maxStrLen\<close> a length (\<^verbatim>\<open>len(v)\<close>).
\<close>

record statsBuffer =
  first :: bool
  nullCount :: int
  minIntVal :: Num
  maxIntVal :: Num
  minRealVal :: float64
  maxRealVal :: float64
  minStrVal :: bytes
  maxStrVal :: bytes
  maxStrLen :: int

text \<open>
  Modelled from the spec: the statistics buffer at the start of a chunk, \<^verbatim>\<open>first\<close>
  being true until the first non-null value is seen and every other field zero.
\<close>

definition freshStats :: statsBuffer where
  "freshStats = \<lparr>first = True, nullCount = 0, minIntVal = 0, maxIntVal = 0,
     minRealVal = 0, maxRealVal = 0, minStrVal = [], maxStrVal = [], maxStrLen = 0\<rparr>"

section \<open>The converters\<close>

text \<open>
  \<^verbatim>\<open>ValidateAndConvert(stats *statsBuffer, val any, buf typedBuffer) error\<close> changes
  the statistics and the buffer through pointers, so each model returns the outcome
  together with the statistics and the buffer as the call leaves them, also when it
  returns an error or panics.
\<close>

type_synonym result = "outcome \<times> statsBuffer \<times> typedBuffer"

text \<open>
  The last two statements of every successful path, \<^verbatim>\<open>buf.Write...(v); return nil\<close>:
  a panic of the write leaves the buffer as it was.
\<close>

definition written :: "statsBuffer \<Rightarrow> typedBuffer \<Rightarrow> typedBuffer option \<Rightarrow> result" where
  "written stats buf w = (case w of None \<Rightarrow> (Panic, stats, buf) | Some b \<Rightarrow> (Ok, stats, b))"

text \<open>
  The first statement of every converter (lines 283-290, 318-325, 397-404, 428-435,
  470-477, 535-542, 594-601, 631-638): what is done with \<^verbatim>\<open>val == nil\<close>.
\<close>

definition nullValue :: "bool \<Rightarrow> statsBuffer \<Rightarrow> typedBuffer \<Rightarrow> result" where
  "nullValue nullable stats buf =
     (if \<not> nullable then (Err errNullValue, stats, buf)
      else let stats' = stats\<lparr>nullCount := nullCount stats + 1\<rparr>
           in written stats' buf (WriteNull buf))"

text \<open>
  The statistics block of the converters with Int128 statistics (lines 299-306, 380-387,
  576-583, 613-620, 648-655, the same statements each time).
\<close>

definition updateIntStats :: "statsBuffer \<Rightarrow> Num \<Rightarrow> statsBuffer" where
  "updateIntStats stats v =
     (if first stats then stats\<lparr>minIntVal := v, maxIntVal := v, first := False\<rparr>
      else stats\<lparr>minIntVal := int128_Min (minIntVal stats) v,
                 maxIntVal := int128_Max (maxIntVal stats) v\<rparr>)"

text \<open>The statistics block of the floating-point converter (lines 409-416).\<close>

definition updateRealStats :: "statsBuffer \<Rightarrow> float64 \<Rightarrow> statsBuffer" where
  "updateRealStats stats v =
     (if first stats then stats\<lparr>minRealVal := v, maxRealVal := v, first := False\<rparr>
      else stats\<lparr>minRealVal := go_min (minRealVal stats) v,
                 maxRealVal := go_max (maxRealVal stats) v\<rparr>)"

text \<open>
  The statistics block of the binary and JSON converters (lines 446-459 and 482-495, the
  same statements).
\<close>

definition updateStrStats :: "statsBuffer \<Rightarrow> bytes \<Rightarrow> statsBuffer" where
  "updateStrStats stats v =
     (if first stats
      then stats\<lparr>minStrVal := v, maxStrVal := v, maxStrLen := int (length v), first := False\<rparr>
      else
        let s1 = (if bytes_Compare v (minStrVal stats) < 0 then stats\<lparr>minStrVal := v\<rparr> else stats);
            s2 = (if bytes_Compare v (maxStrVal s1) > 0 then s1\<lparr>maxStrVal := v\<rparr> else s1)
        in s2\<lparr>maxStrLen := max (maxStrLen s2) (int (length v))\<rparr>)"

subsection \<open>boolConverter\<close>

record boolConverter =
  bool_nullable :: bool

definition boolConverter_ValidateAndConvert ::
  "externals \<Rightarrow> boolConverter \<Rightarrow> statsBuffer \<Rightarrow> any \<Rightarrow> typedBuffer \<Rightarrow> result" where
  "boolConverter_ValidateAndConvert ext c stats val buf =
     (if val = AnyNil then nullValue (bool_nullable c) stats buf
      else case ValueAsBool ext val of
        Inl err \<Rightarrow> (Err err, stats, buf)
      | Inr v \<Rightarrow>
          let i = (if v then int128_FromUint64 1 else int128_FromUint64 0);
              stats' = updateIntStats stats i
          in written stats' buf (WriteBool buf v))"

subsection \<open>numberConverter\<close>

record numberConverter =
  number_nullable :: bool
  number_scale :: "32 word"
  number_precision :: "32 word"

text \<open>
  The type switch of lines 328-376, which leaves \<^verbatim>\<open>v, err\<close>. The conversions
  \<^verbatim>\<open>int64(t)\<close> and \<^verbatim>\<open>uint64(t)\<close> extend the narrower integers with and without
  sign.
\<close>

definition numberConverter_switch :: "externals \<Rightarrow> numberConverter \<Rightarrow> any \<Rightarrow> error + Num" where
  "numberConverter_switch ext c val =
     (let p = number_precision c; s = number_scale c in
      case val of
        AnyInt t \<Rightarrow> Rescale ext (int128_FromInt64 t) p s
      | AnyInt8 t \<Rightarrow> Rescale ext (int128_FromInt64 (scast t)) p s
      | AnyInt16 t \<Rightarrow> Rescale ext (int128_FromInt64 (scast t)) p s
      | AnyInt32 t \<Rightarrow> Rescale ext (int128_FromInt64 (scast t)) p s
      | AnyInt64 t \<Rightarrow> Rescale ext (int128_FromInt64 t) p s
      | AnyUint t \<Rightarrow> Rescale ext (int128_FromUint64 t) p s
      | AnyUint8 t \<Rightarrow> Rescale ext (int128_FromUint64 (ucast t)) p s
      | AnyUint16 t \<Rightarrow> Rescale ext (int128_FromUint64 (ucast t)) p s
      | AnyUint32 t \<Rightarrow> Rescale ext (int128_FromUint64 (ucast t)) p s
      | AnyUint64 t \<Rightarrow> Rescale ext (int128_FromUint64 t) p s
      | AnyFloat32 t \<Rightarrow> FromFloat32 ext t p s
      | AnyFloat64 t \<Rightarrow> FromFloat64 ext t p s
      | AnyString t \<Rightarrow> FromString ext t p s
      | AnyJSONNumber t \<Rightarrow> FromString ext t p s
      | _ \<Rightarrow>
          (case ValueAsInt64 ext val of
             Inl err \<Rightarrow> Inl err
           | Inr i \<Rightarrow> Rescale ext (int128_FromInt64 i) p s))"

definition numberConverter_ValidateAndConvert ::
  "externals \<Rightarrow> numberConverter \<Rightarrow> statsBuffer \<Rightarrow> any \<Rightarrow> typedBuffer \<Rightarrow> result" where
  "numberConverter_ValidateAndConvert ext c stats val buf =
     (if val = AnyNil then nullValue (number_nullable c) stats buf
      else case numberConverter_switch ext c val of
        Inl err \<Rightarrow> (Err err, stats, buf)
      | Inr v \<Rightarrow>
          let stats' = updateIntStats stats v
          in written stats' buf (WriteInt128 buf v))"

subsection \<open>doubleConverter\<close>

record doubleConverter =
  double_nullable :: bool

definition doubleConverter_ValidateAndConvert ::
  "externals \<Rightarrow> doubleConverter \<Rightarrow> statsBuffer \<Rightarrow> any \<Rightarrow> typedBuffer \<Rightarrow> result" where
  "doubleConverter_ValidateAndConvert ext c stats val buf =
     (if val = AnyNil then nullValue (double_nullable c) stats buf
      else case ValueAsFloat64 ext val of
        Inl err \<Rightarrow> (Err err, stats, buf)
      | Inr v \<Rightarrow>
          let stats' = updateRealStats stats v
          in written stats' buf (WriteFloat64 buf v))"

subsection \<open>binaryConverter\<close>

record binaryConverter =
  binary_nullable :: bool
  binary_maxLength :: int
  binary_utf8 :: bool

definition binaryConverter_ValidateAndConvert ::
  "externals \<Rightarrow> binaryConverter \<Rightarrow> statsBuffer \<Rightarrow> any \<Rightarrow> typedBuffer \<Rightarrow> result" where
  "binaryConverter_ValidateAndConvert ext c stats val buf =
     (if val = AnyNil then nullValue (binary_nullable c) stats buf
      else case ValueAsBytes ext val of
        Inl err \<Rightarrow> (Err err, stats, buf)
      | Inr v \<Rightarrow>
          if int (length v) > binary_maxLength c
          then (Err (ValueTooLong (int (length v)) (binary_maxLength c)), stats, buf)
          else if binary_utf8 c \<and> \<not> utf8_Valid v then (Err InvalidUTF8, stats, buf)
          else
            let stats' = updateStrStats stats v
            in written stats' buf (WriteBytes buf v))"

subsection \<open>jsonConverter, jsonArrayConverter, jsonObjectConverter\<close>

record jsonConverter =
  json_nullable :: bool
  json_maxLength :: int

definition jsonConverter_ValidateAndConvert ::
  "externals \<Rightarrow> jsonConverter \<Rightarrow> statsBuffer \<Rightarrow> any \<Rightarrow> typedBuffer \<Rightarrow> result" where
  "jsonConverter_ValidateAndConvert ext c stats val buf =
     (if val = AnyNil then nullValue (json_nullable c) stats buf
      else
        let v = gabsBytes ext val in
        if int (length v) > json_maxLength c
        then (Err (ValueTooLong (int (length v)) (json_maxLength c)), stats, buf)
        else
          let stats' = updateStrStats stats v
          in written stats' buf (WriteBytes buf v))"

text \<open>The type assertions \<^verbatim>\<open>val.([]any)\<close> and \<^verbatim>\<open>val.(map[string]any)\<close>.\<close>

fun isArray :: "any \<Rightarrow> bool" where
  "isArray (AnyArray xs) = True"
| "isArray _ = False"

fun isObject :: "any \<Rightarrow> bool" where
  "isObject (AnyObject kvs) = True"
| "isObject _ = False"

definition jsonArrayConverter_ValidateAndConvert ::
  "externals \<Rightarrow> jsonConverter \<Rightarrow> statsBuffer \<Rightarrow> any \<Rightarrow> typedBuffer \<Rightarrow> result" where
  "jsonArrayConverter_ValidateAndConvert ext c stats val buf =
     (if val \<noteq> AnyNil \<and> \<not> isArray val then (Err NotJSONArray, stats, buf)
      else jsonConverter_ValidateAndConvert ext c stats val buf)"

definition jsonObjectConverter_ValidateAndConvert ::
  "externals \<Rightarrow> jsonConverter \<Rightarrow> statsBuffer \<Rightarrow> any \<Rightarrow> typedBuffer \<Rightarrow> result" where
  "jsonObjectConverter_ValidateAndConvert ext c stats val buf =
     (if val \<noteq> AnyNil \<and> \<not> isObject val then (Err NotJSONObject, stats, buf)
      else jsonConverter_ValidateAndConvert ext c stats val buf)"

subsection \<open>timestampConverter\<close>

record timestampConverter =
  timestamp_nullable :: bool
  timestamp_scale :: "32 word"
  timestamp_precision :: "32 word"
  timestamp_includeTZ :: bool
  timestamp_trimTZ :: bool
  timestamp_defaultTZ :: Location

text \<open>
  The zero value of \<^verbatim>\<open>time.Time\<close>, which \<^verbatim>\<open>var t time.Time\<close> declares:
  January 1, year 1, 00:00:00 UTC.
\<close>

definition zeroTime :: time_Time where
  "zeroTime = \<lparr>unixSec = - 62135596800, nsec = 0, zoneOffset = 0\<rparr>"

text \<open>
  The type switch of lines 546-556 leaves the string \<^verbatim>\<open>s\<close> (empty unless the value
  is a string or a byte slice) and the time \<^verbatim>\<open>t\<close> (the zero value unless the value
  went through \<^verbatim>\<open>bloblang.ValueAsTimestamp\<close>).
\<close>

definition timestampConverter_switch :: "externals \<Rightarrow> any \<Rightarrow> error + (bytes \<times> time_Time)" where
  "timestampConverter_switch ext val =
     (case val of
        AnyBytes v \<Rightarrow> Inr (v, zeroTime)
      | AnyString v \<Rightarrow> Inr (v, zeroTime)
      | _ \<Rightarrow>
          (case ValueAsTimestamp ext val of
             Inl err \<Rightarrow> Inl err
           | Inr t \<Rightarrow> Inr ([], t)))"

text \<open>Lines 557-563: the string is parsed when it is not empty.\<close>

definition timestampConverter_parse ::
  "externals \<Rightarrow> timestampConverter \<Rightarrow> bytes \<Rightarrow> time_Time \<Rightarrow> error + time_Time" where
  "timestampConverter_parse ext c s t =
     (if s \<noteq> [] then
        (case ParseInLocation ext s (timestamp_defaultTZ c) of
           Inl err \<Rightarrow> Inl (TimestampParseFailure s)
         | Inr t' \<Rightarrow> Inr t')
      else Inr t)"

definition timestampConverter_ValidateAndConvert ::
  "externals \<Rightarrow> timestampConverter \<Rightarrow> statsBuffer \<Rightarrow> any \<Rightarrow> typedBuffer \<Rightarrow> result" where
  "timestampConverter_ValidateAndConvert ext c stats val buf =
     (if val = AnyNil then nullValue (timestamp_nullable c) stats buf
      else case timestampConverter_switch ext val of
        Inl err \<Rightarrow> (Err err, stats, buf)
      | Inr (s, t0) \<Rightarrow>
          (case timestampConverter_parse ext c s t0 of
             Inl err \<Rightarrow> (Err err, stats, buf)
           | Inr t1 \<Rightarrow>
               let t = (if timestamp_trimTZ c then time_UTC t1 else t1);
                   v = snowflakeTimestampInt ext t (timestamp_scale c) (timestamp_includeTZ c)
               in if \<not> FitsInPrecision ext v (timestamp_precision c)
                  then (Err (PrecisionOverflow t v (timestamp_precision c)), stats, buf)
                  else
                    let stats' = updateIntStats stats v
                    in written stats' buf (WriteInt128 buf v)))"

subsection \<open>timeConverter\<close>

record timeConverter =
  time_nullable :: bool
  time_scale :: "32 word"

text \<open>
  Modelled from the spec: \<^verbatim>\<open>pow10TableInt64\<close> is not part of the sources; the spec
  calls it a precomputed power-of-ten table. Its entries are \<^verbatim>\<open>int64\<close>, so it
  holds the powers up to the largest one of that type, \<open>10 ^ 18\<close>.
\<close>

definition pow10TableInt64 :: "64 word list" where
  "pow10TableInt64 = map (\<lambda>i. 10 ^ i) [0..<19]"

text \<open>
  Lines 608-611. The sum is computed on Go's \<^verbatim>\<open>int\<close>; the four readers return
  at most 23, 59, 59 and \<open>2 ^ 30 - 1\<close>, so it stays below \<open>2 ^ 63\<close> and the model
  computes it on the integers.
\<close>

definition nanosSinceMidnight :: "time_Time \<Rightarrow> int" where
  "nanosSinceMidnight t =
     time_Hour t * 3600000000000 + time_Minute t * 60000000000
       + time_Second t * 1000000000 + time_Nanosecond t"

definition timeConverter_ValidateAndConvert ::
  "externals \<Rightarrow> timeConverter \<Rightarrow> statsBuffer \<Rightarrow> any \<Rightarrow> typedBuffer \<Rightarrow> result" where
  "timeConverter_ValidateAndConvert ext c stats val buf =
     (if val = AnyNil then nullValue (time_nullable c) stats buf
      else case ValueAsTimestamp ext val of
        Inl err \<Rightarrow> (Err err, stats, buf)
      | Inr t0 \<Rightarrow>
          let t = time_UTC t0;
              nanos = nanosSinceMidnight t;
              i = sint (9 - time_scale c)
          in if i < 0 \<or> int (length pow10TableInt64) \<le> i then (Panic, stats, buf)
             else
               let v = int128_FromInt64 (int64_div (word_of_int nanos) (pow10TableInt64 ! nat i));
                   stats' = updateIntStats stats v
               in written stats' buf (WriteInt128 buf v))"

subsection \<open>dateConverter\<close>

record dateConverter =
  date_nullable :: bool

definition dateConverter_ValidateAndConvert ::
  "externals \<Rightarrow> dateConverter \<Rightarrow> statsBuffer \<Rightarrow> any \<Rightarrow> typedBuffer \<Rightarrow> result" where
  "dateConverter_ValidateAndConvert ext c stats val buf =
     (if val = AnyNil then nullValue (date_nullable c) stats buf
      else case ValueAsTimestamp ext val of
        Inl err \<Rightarrow> (Err err, stats, buf)
      | Inr t0 \<Rightarrow>
          let t = time_UTC t0 in
          if time_Year t < - 9999 \<or> time_Year t > 9999
          then (Err (DateOutOfRange (time_Year t)), stats, buf)
          else
            let v = int128_FromInt64 (int64_div (time_Unix t) 86400);
                stats' = updateIntStats stats v
            in written stats' buf (WriteInt128 buf v))"

subsection \<open>The interface dataConverter\<close>

datatype dataConverter =
    BoolConverter boolConverter
  | NumberConverter numberConverter
  | DoubleConverter doubleConverter
  | BinaryConverter binaryConverter
  | JsonArrayConverter jsonConverter
  | JsonObjectConverter jsonConverter
  | TimestampConverter timestampConverter
  | TimeConverter timeConverter
  | DateConverter dateConverter

fun ValidateAndConvert ::
  "externals \<Rightarrow> dataConverter \<Rightarrow> statsBuffer \<Rightarrow> any \<Rightarrow> typedBuffer \<Rightarrow> result" where
  "ValidateAndConvert ext (BoolConverter c) = boolConverter_ValidateAndConvert ext c"
| "ValidateAndConvert ext (NumberConverter c) = numberConverter_ValidateAndConvert ext c"
| "ValidateAndConvert ext (DoubleConverter c) = doubleConverter_ValidateAndConvert ext c"
| "ValidateAndConvert ext (BinaryConverter c) = binaryConverter_ValidateAndConvert ext c"
| "ValidateAndConvert ext (JsonArrayConverter c) = jsonArrayConverter_ValidateAndConvert ext c"
| "ValidateAndConvert ext (JsonObjectConverter c) = jsonObjectConverter_ValidateAndConvert ext c"
| "ValidateAndConvert ext (TimestampConverter c) = timestampConverter_ValidateAndConvert ext c"
| "ValidateAndConvert ext (TimeConverter c) = timeConverter_ValidateAndConvert ext c"
| "ValidateAndConvert ext (DateConverter c) = dateConverter_ValidateAndConvert ext c"

text \<open>The nullable flag of a converter, whatever its variant.\<close>

fun nullable :: "dataConverter \<Rightarrow> bool" where
  "nullable (BoolConverter c) = bool_nullable c"
| "nullable (NumberConverter c) = number_nullable c"
| "nullable (DoubleConverter c) = double_nullable c"
| "nullable (BinaryConverter c) = binary_nullable c"
| "nullable (JsonArrayConverter c) = json_nullable c"
| "nullable (JsonObjectConverter c) = json_nullable c"
| "nullable (TimestampConverter c) = timestamp_nullable c"
| "nullable (TimeConverter c) = time_nullable c"
| "nullable (DateConverter c) = date_nullable c"

text \<open>
  Modelled from the spec: the conversion driver is not part of the sources. For one
  column it invokes the converter on the values in row order and stops at the first
  call that does not return \<^verbatim>\<open>nil\<close>.
\<close>

fun convertColumn ::
  "externals \<Rightarrow> dataConverter \<Rightarrow> statsBuffer \<Rightarrow> any list \<Rightarrow> typedBuffer \<Rightarrow> result" where
  "convertColumn ext c stats [] buf = (Ok, stats, buf)"
| "convertColumn ext c stats (val # vals) buf =
     (case ValidateAndConvert ext c stats val buf of
        (Ok, stats', buf') \<Rightarrow> convertColumn ext c stats' vals buf'
      | r \<Rightarrow> r)"

section \<open>Notions used to state the properties\<close>

text \<open>
  A buffer has room when its next cell lies inside the matrix, which the caller of
  \<^verbatim>\<open>Prepare\<close> has to guarantee (``the matrix size must be pre-allocated'');
  \<open>stored b v\<close> is the buffer after one write of the cell \<open>v\<close>.
\<close>

definition hasRoom :: "typedBuffer \<Rightarrow> bool" where
  "hasRoom b = (0 \<le> cellIndex b \<and> cellIndex b < int (length (matrix b)))"

definition stored :: "typedBuffer \<Rightarrow> parquet_Value \<Rightarrow> typedBuffer" where
  "stored b v = b\<lparr>matrix := (matrix b)[nat (cellIndex b) := v], currentRow := currentRow b + 1\<rparr>"

text \<open>The cell that \<^verbatim>\<open>WriteInt128\<close> stores for a number, by the kind of the buffer.\<close>

definition int128Cell :: "typedBuffer \<Rightarrow> Num \<Rightarrow> parquet_Value" where
  "int128Cell b v =
     (case kind b of
        typedBufferImpl \<Rightarrow> Level (FixedLenByteArrayValue (int128_ToBigEndian v)) 0 1 (columnIndex b)
      | int64Buffer \<Rightarrow> Level (Int64Value (int128_ToInt64 v)) 0 1 (columnIndex b)
      | int32Buffer \<Rightarrow> Level (Int32Value (ucast (int128_ToInt64 v))) 0 1 (columnIndex b))"

text \<open>The time in UTC that is \<open>s\<close> seconds and \<open>n\<close> nanoseconds after the epoch.\<close>

definition instant :: "int \<Rightarrow> int \<Rightarrow> time_Time" where
  "instant s n = \<lparr>unixSec = word_of_int s, nsec = word_of_int n, zoneOffset = 0\<rparr>"

text \<open>A buffer of the given kind prepared on a matrix of \<open>n\<close> rows and one column.\<close>

definition columnOf :: "bufferKind \<Rightarrow> nat \<Rightarrow> typedBuffer" where
  "columnOf k n =
     Prepare \<lparr>kind = k, matrix = [], columnIndex = 0, rowWidth = 0, currentRow = 0\<rparr>
       (replicate n NullValue) 0 1"

text \<open>
  An instance of the parameters, to run the model on examples. Each coercion returns a
  value that already has the wanted type as it is (bloblang does so: a \<^verbatim>\<open>float64\<close>
  is its own coercion to \<^verbatim>\<open>float64\<close>, a string gives its bytes) and refuses the
  others; \<open>Rescale\<close> multiplies by \<open>10 ^ scale\<close> and refuses a result of more than
  \<open>precision\<close> digits, which is what \<open>FitsInPrecision\<close> tests; the constructors from
  floats and strings and the parser refuse every input; a timestamp is encoded as its
  Unix second.
\<close>

definition sampleExternals :: externals where
  "sampleExternals = \<lparr>
     ValueAsBool = (\<lambda>v. case v of AnyBool b \<Rightarrow> Inr b | _ \<Rightarrow> Inl (ExternalError 1)),
     ValueAsInt64 = (\<lambda>v. case v of AnyInt64 i \<Rightarrow> Inr i | _ \<Rightarrow> Inl (ExternalError 2)),
     ValueAsFloat64 = (\<lambda>v. case v of AnyFloat64 f \<Rightarrow> Inr f | _ \<Rightarrow> Inl (ExternalError 3)),
     ValueAsBytes =
       (\<lambda>v. case v of AnyString s \<Rightarrow> Inr s | AnyBytes s \<Rightarrow> Inr s | _ \<Rightarrow> Inl (ExternalError 4)),
     ValueAsTimestamp = (\<lambda>v. case v of AnyTime t \<Rightarrow> Inr t | _ \<Rightarrow> Inl (ExternalError 5)),
     Rescale =
       (\<lambda>v p s. if \<bar>sint v * 10 ^ unat s\<bar> < 10 ^ unat p
                then Inr (word_of_int (sint v * 10 ^ unat s)) else Inl (ExternalError 6)),
     FromFloat32 = (\<lambda>f p s. Inl (ExternalError 7)),
     FromFloat64 = (\<lambda>f p s. Inl (ExternalError 7)),
     FromString = (\<lambda>t p s. Inl (ExternalError 8)),
     FitsInPrecision = (\<lambda>v p. \<bar>sint v\<bar> < 10 ^ unat p),
     gabsBytes = (\<lambda>v. []),
     ParseInLocation = (\<lambda>s l. Inl (ExternalError 9)),
     snowflakeTimestampInt = (\<lambda>t s tz. int128_FromInt64 (unixSec t))\<rparr>"

text \<open>
  The logical value of a cell, as a reader of the column decodes it: the signed integer of
  a native 32- or 64-bit cell, the signed big-endian integer of a fixed-length byte array,
  0 or 1 for a boolean. Levels do not change it.
\<close>

definition be_uint :: "bytes \<Rightarrow> int" where
  "be_uint bs = foldl (\<lambda>a b. a * 256 + uint b) 0 bs"

definition be_sint :: "bytes \<Rightarrow> int" where
  "be_sint bs = signed_take_bit (8 * length bs - 1) (be_uint bs)"

fun logicalValue :: "parquet_Value \<Rightarrow> int option" where
  "logicalValue (Level v r d c) = logicalValue v"
| "logicalValue (Int32Value w) = Some (sint w)"
| "logicalValue (Int64Value w) = Some (sint w)"
| "logicalValue (FixedLenByteArrayValue bs) = Some (be_sint bs)"
| "logicalValue (BooleanValue b) = Some (if b then 1 else 0)"
| "logicalValue _ = None"

text \<open>
  The funnel of the fixed-point converter in the words of the spec: a native signed
  integer of value \<open>n\<close> goes through \<^verbatim>\<open>FromInt64\<close> and \<^verbatim>\<open>Rescale\<close>, an unsigned one
  through \<^verbatim>\<open>FromUint64\<close> and \<^verbatim>\<open>Rescale\<close>, a float through \<^verbatim>\<open>FromFloat32\<close> or
  \<^verbatim>\<open>FromFloat64\<close>, a string or decimal-text token through \<^verbatim>\<open>FromString\<close>, and
  every other value through the generic integer coercion, \<^verbatim>\<open>FromInt64\<close> and
  \<^verbatim>\<open>Rescale\<close>, all to the declared precision and scale.
\<close>

fun nativeSigned :: "any \<Rightarrow> int option" where
  "nativeSigned (AnyInt t) = Some (sint t)"
| "nativeSigned (AnyInt8 t) = Some (sint t)"
| "nativeSigned (AnyInt16 t) = Some (sint t)"
| "nativeSigned (AnyInt32 t) = Some (sint t)"
| "nativeSigned (AnyInt64 t) = Some (sint t)"
| "nativeSigned _ = None"

fun nativeUnsigned :: "any \<Rightarrow> int option" where
  "nativeUnsigned (AnyUint t) = Some (uint t)"
| "nativeUnsigned (AnyUint8 t) = Some (uint t)"
| "nativeUnsigned (AnyUint16 t) = Some (uint t)"
| "nativeUnsigned (AnyUint32 t) = Some (uint t)"
| "nativeUnsigned (AnyUint64 t) = Some (uint t)"
| "nativeUnsigned _ = None"

definition numberPath :: "externals \<Rightarrow> numberConverter \<Rightarrow> any \<Rightarrow> error + Num" where
  "numberPath ext c val =
     (case nativeSigned val of
        Some n \<Rightarrow>
          Rescale ext (int128_FromInt64 (word_of_int n)) (number_precision c) (number_scale c)
      | None \<Rightarrow>
     (case nativeUnsigned val of
        Some n \<Rightarrow>
          Rescale ext (int128_FromUint64 (word_of_int n)) (number_precision c) (number_scale c)
      | None \<Rightarrow>
     (case val of
        AnyFloat32 t \<Rightarrow> FromFloat32 ext t (number_precision c) (number_scale c)
      | AnyFloat64 t \<Rightarrow> FromFloat64 ext t (number_precision c) (number_scale c)
      | AnyString t \<Rightarrow> FromString ext t (number_precision c) (number_scale c)
      | AnyJSONNumber t \<Rightarrow> FromString ext t (number_precision c) (number_scale c)
      | _ \<Rightarrow>
          (case ValueAsInt64 ext val of
             Inl e \<Rightarrow> Inl e
           | Inr i \<Rightarrow>
               Rescale ext (int128_FromInt64 i) (number_precision c) (number_scale c)))))"


text \<open>A timestamp column that trims the time zone, to run the model on examples.\<close>

definition sampleTimestamp :: timestampConverter where
  "sampleTimestamp =
     \<lparr>timestamp_nullable = False, timestamp_scale = 0, timestamp_precision = 18,
      timestamp_includeTZ = False, timestamp_trimTZ = True, timestamp_defaultTZ = Location 0\<rparr>"

text \<open>
  The values that enter the statistics: a number, a float or a byte sequence.
  \<open>cellStat\<close> reads the value back from a cell of the generic buffer (a boolean cell is
  the number 0 or 1, as the boolean converter counts it); the converted value of an
  input is the value of the cell that the converter writes for it into a fresh generic
  buffer, with fresh statistics (none for nil and for an input that is not accepted).
\<close>

datatype statValue = IntStat Num | RealStat float64 | StrStat bytes

fun cellStat :: "parquet_Value \<Rightarrow> statValue option" where
  "cellStat (Level v r d c) = cellStat v"
| "cellStat (BooleanValue b) = Some (IntStat (if b then 1 else 0))"
| "cellStat (FixedLenByteArrayValue bs) = Some (IntStat (word_of_int (be_sint bs)))"
| "cellStat (DoubleValue f) = Some (RealStat f)"
| "cellStat (ByteArrayValue bs) = Some (StrStat bs)"
| "cellStat _ = None"

definition convertedValue :: "externals \<Rightarrow> dataConverter \<Rightarrow> any \<Rightarrow> statValue option" where
  "convertedValue ext c val =
     (case ValidateAndConvert ext c freshStats val (columnOf typedBufferImpl 1) of
        (Ok, stats, b) \<Rightarrow> cellStat (matrix b ! 0)
      | _ \<Rightarrow> None)"

definition convertedValues :: "externals \<Rightarrow> dataConverter \<Rightarrow> any list \<Rightarrow> statValue list" where
  "convertedValues ext c vals = List.map_filter (convertedValue ext c) vals"

fun intsOf :: "statValue list \<Rightarrow> Num list" where
  "intsOf [] = []"
| "intsOf (IntStat v # xs) = v # intsOf xs"
| "intsOf (x # xs) = intsOf xs"

fun realsOf :: "statValue list \<Rightarrow> float64 list" where
  "realsOf [] = []"
| "realsOf (RealStat v # xs) = v # realsOf xs"
| "realsOf (x # xs) = realsOf xs"

fun strsOf :: "statValue list \<Rightarrow> bytes list" where
  "strsOf [] = []"
| "strsOf (StrStat v # xs) = v # strsOf xs"
| "strsOf (x # xs) = strsOf xs"

text \<open>
  How a converted value enters the statistics, and the kind of value each converter
  produces.
\<close>

definition observe :: "statsBuffer \<Rightarrow> statValue \<Rightarrow> statsBuffer" where
  "observe s x =
     (case x of IntStat v \<Rightarrow> updateIntStats s v
      | RealStat v \<Rightarrow> updateRealStats s v
      | StrStat v \<Rightarrow> updateStrStats s v)"

datatype statKind = IntKind | RealKind | StrKind

fun kindOfValue :: "statValue \<Rightarrow> statKind" where
  "kindOfValue (IntStat v) = IntKind"
| "kindOfValue (RealStat v) = RealKind"
| "kindOfValue (StrStat v) = StrKind"

fun kindOfConverter :: "dataConverter \<Rightarrow> statKind" where
  "kindOfConverter (DoubleConverter c) = RealKind"
| "kindOfConverter (BinaryConverter c) = StrKind"
| "kindOfConverter (JsonArrayConverter c) = StrKind"
| "kindOfConverter (JsonObjectConverter c) = StrKind"
| "kindOfConverter _ = IntKind"

text \<open>
  The two ways a call on a value that is not nil can go, whatever the statistics and the
  buffer: the value is accepted, converted to \<open>x\<close>, counted and written as the cell
  \<open>f buf\<close>; or it is refused with an outcome that is not success and nothing changes.
\<close>

definition accepted ::
  "externals \<Rightarrow> dataConverter \<Rightarrow> any \<Rightarrow> statValue \<Rightarrow> (typedBuffer \<Rightarrow> parquet_Value) \<Rightarrow> bool" where
  "accepted ext c val x f =
     (kindOfValue x = kindOfConverter c \<and>
      cellStat (f (columnOf typedBufferImpl 1)) = Some x \<and>
      (\<forall>stats buf. ValidateAndConvert ext c stats val buf
         = written (observe stats x) buf (WriteValue buf (f buf))))"

definition refused :: "externals \<Rightarrow> dataConverter \<Rightarrow> any \<Rightarrow> outcome \<Rightarrow> bool" where
  "refused ext c val oc =
     (oc \<noteq> Ok \<and> (\<forall>stats buf. ValidateAndConvert ext c stats val buf = (oc, stats, buf)))"

text \<open>
  What the statistics say after a non-empty sequence of numbers, floats or byte
  sequences: the flag \<^verbatim>\<open>first\<close> is cleared, and minimum and maximum are the least and
  the greatest element, under the signed order of the numbers, the order of
  \<open>float_key\<close> on floats that are not NaN (both are NaN when an element is), and the
  lexicographic order of byte sequences; \<^verbatim>\<open>maxStrLen\<close> is the greatest length.
\<close>

definition intSummary :: "statsBuffer \<Rightarrow> Num list \<Rightarrow> bool" where
  "intSummary s is =
     (\<not> first s \<and> minIntVal s \<in> set is \<and> sint (minIntVal s) = Min (sint ` set is) \<and>
      maxIntVal s \<in> set is \<and> sint (maxIntVal s) = Max (sint ` set is))"

definition realSummary :: "statsBuffer \<Rightarrow> float64 list \<Rightarrow> bool" where
  "realSummary s rs =
     (\<not> first s \<and>
      (if \<exists>r \<in> set rs. isNaN r then isNaN (minRealVal s) \<and> isNaN (maxRealVal s)
       else minRealVal s \<in> set rs \<and> float_key (minRealVal s) = Min (float_key ` set rs) \<and>
            maxRealVal s \<in> set rs \<and> float_key (maxRealVal s) = Max (float_key ` set rs)))"

definition strSummary :: "statsBuffer \<Rightarrow> bytes list \<Rightarrow> bool" where
  "strSummary s ss =
     (\<not> first s \<and> ss \<noteq> [] \<and> minStrVal s = Min (set ss) \<and> maxStrVal s = Max (set ss) \<and>
      maxStrLen s = Max ((\<lambda>v. int (length v)) ` set ss))"

text \<open>A nullable boolean column, to run the model on an example.\<close>

definition boolColumn :: dataConverter where
  "boolColumn = BoolConverter \<lparr>bool_nullable = True\<rparr>"

section \<open>Properties\<close>

subsection \<open>Writes and the null path\<close>

lemma WriteValue_hasRoom: "hasRoom b \<Longrightarrow> WriteValue b v = Some (stored b v)"
  by (simp add: WriteValue_def hasRoom_def stored_def Let_def)

lemma WriteValue_noRoom: "\<not> hasRoom b \<Longrightarrow> WriteValue b v = None"
  by (auto simp add: WriteValue_def hasRoom_def Let_def)

lemma written_not_Err: "written s b w \<noteq> (Err e, s', b')"
  by (simp add: written_def split: option.splits)

lemma nullValue_Err: "nullValue n s b = (Err e, s', b') \<Longrightarrow> s' = s \<and> b' = b"
  by (auto simp add: nullValue_def Let_def written_not_Err split: if_splits)

lemma nullValue_cases:
  "nullValue n s b =
     (if \<not> n then (Err errNullValue, s, b)
      else if hasRoom b then (Ok, s\<lparr>nullCount := nullCount s + 1\<rparr>, stored b NullValue)
      else (Panic, s\<lparr>nullCount := nullCount s + 1\<rparr>, b))"
  by (simp add: nullValue_def Let_def written_def WriteNull_def WriteValue_hasRoom WriteValue_noRoom)

lemma ValidateAndConvert_nil:
  "ValidateAndConvert ext c stats AnyNil buf = nullValue (nullable c) stats buf"
  by (cases c)
     (simp_all add: boolConverter_ValidateAndConvert_def numberConverter_ValidateAndConvert_def
        doubleConverter_ValidateAndConvert_def binaryConverter_ValidateAndConvert_def
        jsonArrayConverter_ValidateAndConvert_def jsonObjectConverter_ValidateAndConvert_def
        jsonConverter_ValidateAndConvert_def timestampConverter_ValidateAndConvert_def
        timeConverter_ValidateAndConvert_def dateConverter_ValidateAndConvert_def)

lemma hasRoom_columnOf: "hasRoom (columnOf k (Suc n))"
  by (simp add: hasRoom_def columnOf_def Prepare_def cellIndex_def)

lemma kind_columnOf: "kind (columnOf k n) = k"
  by (simp add: columnOf_def Prepare_def)

lemma columnIndex_columnOf: "columnIndex (columnOf k n) = 0"
  by (simp add: columnOf_def Prepare_def)

lemma hasRoom_columnOf1: "hasRoom (columnOf k 1)"
  using hasRoom_columnOf [of k 0] by simp

lemma hasRoom_columnOf2: "hasRoom (columnOf k 2)"
  using hasRoom_columnOf [of k 1] by (simp add: numeral_2_eq_2)

lemma WriteInt128_hasRoom: "hasRoom b \<Longrightarrow> WriteInt128 b v = Some (stored b (int128Cell b v))"
  by (simp add: WriteInt128_def int128Cell_def WriteValue_hasRoom split: bufferKind.splits)

lemma WriteInt128_noRoom: "\<not> hasRoom b \<Longrightarrow> WriteInt128 b v = None"
  by (simp add: WriteInt128_def WriteValue_noRoom split: bufferKind.splits)

lemma written_hasRoom: "written s b (Some b') = (Ok, s, b')"
  by (simp add: written_def)

subsection \<open>Integer conversions\<close>

lemma sint_FromInt64: "sint (int128_FromInt64 w) = sint w"
  by (simp add: int128_FromInt64_def sint_up_scast is_up)

lemma go_div_pos: "0 < b \<Longrightarrow> go_div a b = (if 0 \<le> a then a div b else - ((- a) div b))"
  by (auto simp add: go_div_def sgn_if)

lemma int_div_le_self: "0 \<le> (a::int) \<Longrightarrow> 0 < b \<Longrightarrow> a div b \<le> a"
  using zdiv_mono2 [of a 1 b] by simp

lemma go_div_lower: "0 < b \<Longrightarrow> min 0 a \<le> go_div a b"
  using int_div_le_self [of "- a" b]
  by (auto simp add: go_div_pos pos_imp_zdiv_nonneg_iff)

lemma go_div_upper: "0 < b \<Longrightarrow> go_div a b \<le> max 0 a"
  using int_div_le_self [of a b]
  by (auto simp add: go_div_pos pos_imp_zdiv_nonneg_iff)

lemma sint_int64_div:
  assumes "0 < sint b"
  shows "sint (int64_div a b) = go_div (sint a) (sint b)"
proof -
  have r: "- (2 ^ 63) \<le> sint a" "sint a < 2 ^ 63"
    using sint_ge [of a] sint_lt [of a] by simp_all
  have "min 0 (sint a) \<le> go_div (sint a) (sint b)" "go_div (sint a) (sint b) \<le> max 0 (sint a)"
    using assms by (rule go_div_lower, rule go_div_upper)
  then have "- (2 ^ 63) \<le> go_div (sint a) (sint b)" "go_div (sint a) (sint b) < 2 ^ 63"
    using r by linarith+
  then show ?thesis
    by (simp add: int64_div_def signed_of_int signed_take_bit_int_eq_self)
qed

text \<open>
  C2. For every converter variant and an absent value: a column that is not nullable
  returns the null-not-allowed error with statistics and buffer as they were; a nullable
  column, on a buffer with room, returns success, adds one to \<^verbatim>\<open>nullCount\<close>, stores
  one null cell at the cursor, moves the cursor by one and changes no other field of the
  statistics.
\<close>

theorem null_handling:
  "(\<not> nullable c \<longrightarrow>
      ValidateAndConvert ext c stats AnyNil buf = (Err errNullValue, stats, buf)) \<and>
   (nullable c \<and> hasRoom buf \<longrightarrow>
      ValidateAndConvert ext c stats AnyNil buf =
        (Ok, stats\<lparr>nullCount := nullCount stats + 1\<rparr>, stored buf NullValue))"
  by (simp add: ValidateAndConvert_nil nullValue_cases)

theorem null_handling_witness:
  "\<not> nullable (BoolConverter \<lparr>bool_nullable = False\<rparr>) \<and>
   ValidateAndConvert sampleExternals (BoolConverter \<lparr>bool_nullable = False\<rparr>) freshStats AnyNil
       (columnOf typedBufferImpl 1)
     = (Err errNullValue, freshStats, columnOf typedBufferImpl 1) \<and>
   nullable (DateConverter \<lparr>date_nullable = True\<rparr>) \<and> hasRoom (columnOf typedBufferImpl 1) \<and>
   ValidateAndConvert sampleExternals (DateConverter \<lparr>date_nullable = True\<rparr>) freshStats AnyNil
       (columnOf typedBufferImpl 1)
     = (Ok, freshStats\<lparr>nullCount := nullCount freshStats + 1\<rparr>,
        stored (columnOf typedBufferImpl 1) NullValue)"
  using null_handling [of "BoolConverter \<lparr>bool_nullable = False\<rparr>" sampleExternals freshStats
      "columnOf typedBufferImpl 1"]
    null_handling [of "DateConverter \<lparr>date_nullable = True\<rparr>" sampleExternals freshStats
      "columnOf typedBufferImpl 1"]
    hasRoom_columnOf [of typedBufferImpl 0]
  by simp

subsection \<open>A call that returns an error changes nothing\<close>

lemma bool_Err:
  "boolConverter_ValidateAndConvert ext c stats val buf = (Err e, stats', buf') \<Longrightarrow>
     stats' = stats \<and> buf' = buf"
  by (auto simp add: boolConverter_ValidateAndConvert_def Let_def written_not_Err
      dest: nullValue_Err split: if_splits sum.splits prod.splits)

lemma number_Err:
  "numberConverter_ValidateAndConvert ext c stats val buf = (Err e, stats', buf') \<Longrightarrow>
     stats' = stats \<and> buf' = buf"
  by (auto simp add: numberConverter_ValidateAndConvert_def Let_def written_not_Err
      dest: nullValue_Err split: if_splits sum.splits prod.splits)

lemma double_Err:
  "doubleConverter_ValidateAndConvert ext c stats val buf = (Err e, stats', buf') \<Longrightarrow>
     stats' = stats \<and> buf' = buf"
  by (auto simp add: doubleConverter_ValidateAndConvert_def Let_def written_not_Err
      dest: nullValue_Err split: if_splits sum.splits prod.splits)

lemma binary_Err:
  "binaryConverter_ValidateAndConvert ext c stats val buf = (Err e, stats', buf') \<Longrightarrow>
     stats' = stats \<and> buf' = buf"
  by (auto simp add: binaryConverter_ValidateAndConvert_def Let_def written_not_Err
      dest: nullValue_Err split: if_splits sum.splits prod.splits)

lemma jsonArray_Err:
  "jsonArrayConverter_ValidateAndConvert ext c stats val buf = (Err e, stats', buf') \<Longrightarrow>
     stats' = stats \<and> buf' = buf"
  by (auto simp add: jsonArrayConverter_ValidateAndConvert_def jsonConverter_ValidateAndConvert_def Let_def written_not_Err
      dest: nullValue_Err split: if_splits sum.splits prod.splits)

lemma jsonObject_Err:
  "jsonObjectConverter_ValidateAndConvert ext c stats val buf = (Err e, stats', buf') \<Longrightarrow>
     stats' = stats \<and> buf' = buf"
  by (auto simp add: jsonObjectConverter_ValidateAndConvert_def jsonConverter_ValidateAndConvert_def Let_def written_not_Err
      dest: nullValue_Err split: if_splits sum.splits prod.splits)

lemma timestamp_Err:
  "timestampConverter_ValidateAndConvert ext c stats val buf = (Err e, stats', buf') \<Longrightarrow>
     stats' = stats \<and> buf' = buf"
  by (auto simp add: timestampConverter_ValidateAndConvert_def Let_def written_not_Err
      dest: nullValue_Err split: if_splits sum.splits prod.splits)

lemma time_Err:
  "timeConverter_ValidateAndConvert ext c stats val buf = (Err e, stats', buf') \<Longrightarrow>
     stats' = stats \<and> buf' = buf"
  by (auto simp add: timeConverter_ValidateAndConvert_def Let_def written_not_Err
      dest: nullValue_Err split: if_splits sum.splits prod.splits)

lemma date_Err:
  "dateConverter_ValidateAndConvert ext c stats val buf = (Err e, stats', buf') \<Longrightarrow>
     stats' = stats \<and> buf' = buf"
  by (auto simp add: dateConverter_ValidateAndConvert_def Let_def written_not_Err
      dest: nullValue_Err split: if_splits sum.splits prod.splits)

text \<open>
  C10. For every converter variant and every input: when \<^verbatim>\<open>ValidateAndConvert\<close>
  returns an error, the statistics buffer and the column buffer (matrix and row cursor)
  are the ones the call was given.
\<close>

theorem error_leaves_state:
  "ValidateAndConvert ext c stats val buf = (Err e, stats', buf') \<Longrightarrow>
     stats' = stats \<and> buf' = buf"
  by (cases c)
     (simp_all add: bool_Err number_Err double_Err binary_Err jsonArray_Err jsonObject_Err
        timestamp_Err time_Err date_Err)

lemma binary_too_long_example:
  "ValidateAndConvert sampleExternals
       (BinaryConverter \<lparr>binary_nullable = False, binary_maxLength = 3, binary_utf8 = True\<rparr>)
       (freshStats\<lparr>first := False, maxStrLen := 2\<rparr>) (AnyString [97, 98, 99, 100])
       (columnOf typedBufferImpl 2)
     = (Err (ValueTooLong 4 3), freshStats\<lparr>first := False, maxStrLen := 2\<rparr>,
        columnOf typedBufferImpl 2)"
  by (simp add: binaryConverter_ValidateAndConvert_def sampleExternals_def)

theorem error_leaves_state_witness:
  "ValidateAndConvert sampleExternals
       (BinaryConverter \<lparr>binary_nullable = False, binary_maxLength = 3, binary_utf8 = True\<rparr>)
       (freshStats\<lparr>first := False, maxStrLen := 2\<rparr>) (AnyString [97, 98, 99, 100])
       (columnOf typedBufferImpl 2)
     = (Err (ValueTooLong 4 3), freshStats\<lparr>first := False, maxStrLen := 2\<rparr>,
        columnOf typedBufferImpl 2) \<and>
   freshStats\<lparr>first := False, maxStrLen := 2\<rparr> = freshStats\<lparr>first := False, maxStrLen := 2\<rparr> \<and>
   columnOf typedBufferImpl 2 = columnOf typedBufferImpl 2"
  using binary_too_long_example error_leaves_state [OF binary_too_long_example]
  by simp

subsection \<open>The binary converter\<close>

lemma utf8_ab: "utf8_Valid [97, 98]"
  by (simp add: cont_def)

lemma binary_present:
  assumes "val \<noteq> AnyNil" "ValueAsBytes ext val = Inr v"
  shows "binaryConverter_ValidateAndConvert ext c stats val buf =
     (if int (length v) > binary_maxLength c
      then (Err (ValueTooLong (int (length v)) (binary_maxLength c)), stats, buf)
      else if binary_utf8 c \<and> \<not> utf8_Valid v then (Err InvalidUTF8, stats, buf)
      else written (updateStrStats stats v) buf (WriteBytes buf v))"
  using assms by (simp add: binaryConverter_ValidateAndConvert_def)

lemma WriteBytes_hasRoom:
  "hasRoom b \<Longrightarrow> WriteBytes b v = Some (stored b (Level (ByteArrayValue v) 0 1 (columnIndex b)))"
  by (simp add: WriteBytes_def WriteValue_hasRoom)

lemma binary_first_value:
  "ValidateAndConvert sampleExternals
       (BinaryConverter \<lparr>binary_nullable = False, binary_maxLength = 3, binary_utf8 = True\<rparr>)
       freshStats (AnyString [97, 98]) (columnOf typedBufferImpl 2)
     = (Ok, \<lparr>first = False, nullCount = 0, minIntVal = 0, maxIntVal = 0, minRealVal = 0,
         maxRealVal = 0, minStrVal = [97, 98], maxStrVal = [97, 98], maxStrLen = 2\<rparr>,
        stored (columnOf typedBufferImpl 2) (Level (ByteArrayValue [97, 98]) 0 1 0))"
  by (simp add: binaryConverter_ValidateAndConvert_def sampleExternals_def freshStats_def
      updateStrStats_def written_def WriteBytes_hasRoom hasRoom_columnOf2 utf8_ab)
     (simp add: columnOf_def Prepare_def)

lemma binary_second_value:
  "ValidateAndConvert sampleExternals
       (BinaryConverter \<lparr>binary_nullable = False, binary_maxLength = 3, binary_utf8 = True\<rparr>)
       stats (AnyString [97, 98, 99, 100]) buf
     = (Err (ValueTooLong 4 3), stats, buf)"
  by (simp add: binaryConverter_ValidateAndConvert_def sampleExternals_def)

text \<open>
  C7. For a value that is not nil and that the byte coercion turns into \<open>v\<close>: when
  \<open>v\<close> is longer than \<^verbatim>\<open>maxLength\<close> the binary converter returns the
  value-too-long error with the actual and the maximum length; otherwise, when UTF-8 is
  required and \<open>v\<close> is not valid UTF-8, the invalid-UTF8 error; in both cases nothing is
  written or counted. A value that passes both checks is counted in the statistics and
  written (on a buffer with room). With \<^verbatim>\<open>maxLength\<close> 3, UTF-8 required and the inputs
  "ab" and "abcd", the first call succeeds, the second fails with length 4 and maximum 3,
  and the statistics are the ones of "ab" alone: no null, \<^verbatim>\<open>maxStrLen\<close> 2.
\<close>

theorem binary_checks:
  assumes "val \<noteq> AnyNil" "ValueAsBytes ext val = Inr v"
  shows
    "(int (length v) > binary_maxLength c \<longrightarrow>
        ValidateAndConvert ext (BinaryConverter c) stats val buf =
          (Err (ValueTooLong (int (length v)) (binary_maxLength c)), stats, buf)) \<and>
     (int (length v) \<le> binary_maxLength c \<and> binary_utf8 c \<and> \<not> utf8_Valid v \<longrightarrow>
        ValidateAndConvert ext (BinaryConverter c) stats val buf = (Err InvalidUTF8, stats, buf)) \<and>
     (int (length v) \<le> binary_maxLength c \<and> (binary_utf8 c \<longrightarrow> utf8_Valid v) \<and> hasRoom buf \<longrightarrow>
        ValidateAndConvert ext (BinaryConverter c) stats val buf =
          (Ok, updateStrStats stats v,
           stored buf (Level (ByteArrayValue v) 0 1 (columnIndex buf)))) \<and>
     convertColumn sampleExternals
         (BinaryConverter \<lparr>binary_nullable = False, binary_maxLength = 3, binary_utf8 = True\<rparr>)
         freshStats [AnyString [97, 98], AnyString [97, 98, 99, 100]] (columnOf typedBufferImpl 2)
       = (Err (ValueTooLong 4 3),
          \<lparr>first = False, nullCount = 0, minIntVal = 0, maxIntVal = 0, minRealVal = 0,
           maxRealVal = 0, minStrVal = [97, 98], maxStrVal = [97, 98], maxStrLen = 2\<rparr>,
          stored (columnOf typedBufferImpl 2) (Level (ByteArrayValue [97, 98]) 0 1 0))"
proof -
  have "convertColumn sampleExternals
         (BinaryConverter \<lparr>binary_nullable = False, binary_maxLength = 3, binary_utf8 = True\<rparr>)
         freshStats [AnyString [97, 98], AnyString [97, 98, 99, 100]] (columnOf typedBufferImpl 2)
       = (Err (ValueTooLong 4 3),
          \<lparr>first = False, nullCount = 0, minIntVal = 0, maxIntVal = 0, minRealVal = 0,
           maxRealVal = 0, minStrVal = [97, 98], maxStrVal = [97, 98], maxStrLen = 2\<rparr>,
          stored (columnOf typedBufferImpl 2) (Level (ByteArrayValue [97, 98]) 0 1 0))"
    by (simp only: convertColumn.simps binary_first_value binary_second_value prod.case
        outcome.case)
  then show ?thesis
    using assms by (simp add: binary_present written_def WriteBytes_hasRoom)
qed

theorem binary_checks_witness:
  "AnyString [97, 98, 99, 100] \<noteq> AnyNil \<and>
   ValueAsBytes sampleExternals (AnyString [97, 98, 99, 100]) = Inr [97, 98, 99, 100] \<and>
   int (length [97 :: byte, 98, 99, 100]) > 3 \<and>
   ValidateAndConvert sampleExternals
       (BinaryConverter \<lparr>binary_nullable = False, binary_maxLength = 3, binary_utf8 = True\<rparr>)
       freshStats (AnyString [97, 98, 99, 100]) (columnOf typedBufferImpl 2)
     = (Err (ValueTooLong 4 3), freshStats, columnOf typedBufferImpl 2) \<and>
   AnyBytes [255] \<noteq> AnyNil \<and> ValueAsBytes sampleExternals (AnyBytes [255]) = Inr [255] \<and>
   int (length [255 :: byte]) \<le> 3 \<and> \<not> utf8_Valid [255] \<and>
   ValidateAndConvert sampleExternals
       (BinaryConverter \<lparr>binary_nullable = False, binary_maxLength = 3, binary_utf8 = True\<rparr>)
       freshStats (AnyBytes [255]) (columnOf typedBufferImpl 2)
     = (Err InvalidUTF8, freshStats, columnOf typedBufferImpl 2) \<and>
   AnyString [97, 98] \<noteq> AnyNil \<and> ValueAsBytes sampleExternals (AnyString [97, 98]) = Inr [97, 98] \<and>
   int (length [97 :: byte, 98]) \<le> 3 \<and> utf8_Valid [97, 98] \<and> hasRoom (columnOf typedBufferImpl 2) \<and>
   ValidateAndConvert sampleExternals
       (BinaryConverter \<lparr>binary_nullable = False, binary_maxLength = 3, binary_utf8 = True\<rparr>)
       freshStats (AnyString [97, 98]) (columnOf typedBufferImpl 2)
     = (Ok, updateStrStats freshStats [97, 98],
        stored (columnOf typedBufferImpl 2)
          (Level (ByteArrayValue [97, 98]) 0 1 (columnIndex (columnOf typedBufferImpl 2))))"
  using
    binary_checks [of "AnyString [97, 98, 99, 100]" sampleExternals "[97, 98, 99, 100]"
      "\<lparr>binary_nullable = False, binary_maxLength = 3, binary_utf8 = True\<rparr>" freshStats
      "columnOf typedBufferImpl 2"]
    binary_checks [of "AnyBytes [255]" sampleExternals "[255]"
      "\<lparr>binary_nullable = False, binary_maxLength = 3, binary_utf8 = True\<rparr>" freshStats
      "columnOf typedBufferImpl 2"]
    binary_checks [of "AnyString [97, 98]" sampleExternals "[97, 98]"
      "\<lparr>binary_nullable = False, binary_maxLength = 3, binary_utf8 = True\<rparr>" freshStats
      "columnOf typedBufferImpl 2"]
    hasRoom_columnOf2 [of typedBufferImpl] utf8_ab
  by (simp add: sampleExternals_def)

subsection \<open>The date converter\<close>

lemmas year_defs = time_Year_def year_of_days_def eraOfDays_def dayOfEra_def yearOfEra_def
  dayOfYear_def localSec_def time_UTC_def

lemma date_present:
  assumes "val \<noteq> AnyNil" "ValueAsTimestamp ext val = Inr t"
  shows "dateConverter_ValidateAndConvert ext c stats val buf =
     (if time_Year (time_UTC t) < - 9999 \<or> time_Year (time_UTC t) > 9999
      then (Err (DateOutOfRange (time_Year (time_UTC t))), stats, buf)
      else written (updateIntStats stats (int128_FromInt64 (int64_div (unixSec t) 86400))) buf
             (WriteInt128 buf (int128_FromInt64 (int64_div (unixSec t) 86400))))"
  using assms by (simp add: dateConverter_ValidateAndConvert_def Let_def time_Unix_def time_UTC_def)

lemma sint_dateValue:
  "sint (int128_FromInt64 (int64_div w 86400)) = go_div (sint w) 86400"
  by (simp add: sint_FromInt64 sint_int64_div)

text \<open>
  The division truncates towards zero: the last second of 1969 is encoded as day 0, the
  day of the epoch, and not as day -1.
\<close>

lemma date_before_epoch:
  "sint (int128_FromInt64 (int64_div (unixSec (instant (- 1) 0)) 86400)) = 0"
  by (simp add: sint_dateValue instant_def go_div_def)

lemma year_examples:
  "time_Year (time_UTC (instant (- 377705116800) 0)) = - 9999"
  "time_Year (time_UTC (instant (- 377705116801) 999999999)) = - 10000"
  "time_Year (time_UTC (instant 253402300799 999999999)) = 9999"
  "time_Year (time_UTC (instant 253402300800 0)) = 10000"
  by (simp_all add: year_defs instant_def)

text \<open>
  C5. For a value that is not nil and that the timestamp coercion turns into \<open>t\<close>: when
  the year of \<open>t\<close> in UTC is below -9999 or above 9999 the date converter returns the
  out-of-range error with that year and changes nothing; otherwise (on a buffer with
  room) it writes, and counts in the statistics, the number whose value is the Unix
  seconds of \<open>t\<close> divided by 86400 with Go's integer division, which truncates towards
  zero. The first second of year -9999 and the last second of year 9999 have a year in
  range; the second before the first and the second after the last have the years -10000
  and 10000.
\<close>

theorem date_conversion:
  assumes "val \<noteq> AnyNil" "ValueAsTimestamp ext val = Inr t"
  shows
    "(time_Year (time_UTC t) < - 9999 \<or> time_Year (time_UTC t) > 9999 \<longrightarrow>
        ValidateAndConvert ext (DateConverter c) stats val buf =
          (Err (DateOutOfRange (time_Year (time_UTC t))), stats, buf)) \<and>
     (- 9999 \<le> time_Year (time_UTC t) \<and> time_Year (time_UTC t) \<le> 9999 \<and> hasRoom buf \<longrightarrow>
        (\<exists>v. sint v = go_div (sint (time_Unix t)) 86400 \<and>
           ValidateAndConvert ext (DateConverter c) stats val buf =
             (Ok, updateIntStats stats v, stored buf (int128Cell buf v)))) \<and>
     time_Year (time_UTC (instant (- 377705116800) 0)) = - 9999 \<and>
     time_Year (time_UTC (instant (- 377705116801) 999999999)) = - 10000 \<and>
     time_Year (time_UTC (instant 253402300799 999999999)) = 9999 \<and>
     time_Year (time_UTC (instant 253402300800 0)) = 10000"
proof -
  have "hasRoom buf \<Longrightarrow>
    written (updateIntStats stats (int128_FromInt64 (int64_div (unixSec t) 86400))) buf
             (WriteInt128 buf (int128_FromInt64 (int64_div (unixSec t) 86400)))
      = (Ok, updateIntStats stats (int128_FromInt64 (int64_div (unixSec t) 86400)),
         stored buf (int128Cell buf (int128_FromInt64 (int64_div (unixSec t) 86400))))"
    by (simp add: WriteInt128_hasRoom written_def)
  then have "- 9999 \<le> time_Year (time_UTC t) \<and> time_Year (time_UTC t) \<le> 9999 \<and> hasRoom buf \<longrightarrow>
        (\<exists>v. sint v = go_div (sint (time_Unix t)) 86400 \<and>
           ValidateAndConvert ext (DateConverter c) stats val buf =
             (Ok, updateIntStats stats v, stored buf (int128Cell buf v)))"
    using assms sint_dateValue [of "unixSec t"]
    by (auto simp add: date_present time_Unix_def)
  then show ?thesis
    using assms by (simp add: date_present year_examples)
qed

theorem date_conversion_witness:
  "AnyTime (instant (- 377705116800) 0) \<noteq> AnyNil \<and>
   ValueAsTimestamp sampleExternals (AnyTime (instant (- 377705116800) 0))
     = Inr (instant (- 377705116800) 0) \<and>
   - 9999 \<le> time_Year (time_UTC (instant (- 377705116800) 0)) \<and>
   time_Year (time_UTC (instant (- 377705116800) 0)) \<le> 9999 \<and>
   hasRoom (columnOf typedBufferImpl 1) \<and>
   (\<exists>v. sint v = - 4371587 \<and>
      ValidateAndConvert sampleExternals (DateConverter \<lparr>date_nullable = False\<rparr>) freshStats
          (AnyTime (instant (- 377705116800) 0)) (columnOf typedBufferImpl 1)
        = (Ok, updateIntStats freshStats v,
           stored (columnOf typedBufferImpl 1) (int128Cell (columnOf typedBufferImpl 1) v))) \<and>
   AnyTime (instant (- 377705116801) 999999999) \<noteq> AnyNil \<and>
   ValueAsTimestamp sampleExternals (AnyTime (instant (- 377705116801) 999999999))
     = Inr (instant (- 377705116801) 999999999) \<and>
   time_Year (time_UTC (instant (- 377705116801) 999999999)) < - 9999 \<and>
   ValidateAndConvert sampleExternals (DateConverter \<lparr>date_nullable = False\<rparr>) freshStats
       (AnyTime (instant (- 377705116801) 999999999)) (columnOf typedBufferImpl 1)
     = (Err (DateOutOfRange (- 10000)), freshStats, columnOf typedBufferImpl 1) \<and>
   AnyTime (instant 253402300800 0) \<noteq> AnyNil \<and>
   ValueAsTimestamp sampleExternals (AnyTime (instant 253402300800 0))
     = Inr (instant 253402300800 0) \<and>
   time_Year (time_UTC (instant 253402300800 0)) > 9999 \<and>
   ValidateAndConvert sampleExternals (DateConverter \<lparr>date_nullable = False\<rparr>) freshStats
       (AnyTime (instant 253402300800 0)) (columnOf typedBufferImpl 1)
     = (Err (DateOutOfRange 10000), freshStats, columnOf typedBufferImpl 1)"
proof -
  have g: "go_div (sint (time_Unix (instant (- 377705116800) 0))) 86400 = - 4371587"
    by (simp add: go_div_def time_Unix_def instant_def)
  have s: "ValueAsTimestamp sampleExternals (AnyTime t) = Inr t" for t
    by (simp add: sampleExternals_def)
  show ?thesis
    using
      date_conversion [of "AnyTime (instant (- 377705116800) 0)" sampleExternals
        "instant (- 377705116800) 0" "\<lparr>date_nullable = False\<rparr>" freshStats
        "columnOf typedBufferImpl 1"]
      date_conversion [of "AnyTime (instant (- 377705116801) 999999999)" sampleExternals
        "instant (- 377705116801) 999999999" "\<lparr>date_nullable = False\<rparr>" freshStats
        "columnOf typedBufferImpl 1"]
      date_conversion [of "AnyTime (instant 253402300800 0)" sampleExternals
        "instant 253402300800 0" "\<lparr>date_nullable = False\<rparr>" freshStats
        "columnOf typedBufferImpl 1"]
      hasRoom_columnOf1 [of typedBufferImpl]
    by (simp add: s g year_examples)
qed

subsection \<open>The time-of-day converter\<close>

lemma small_scale:
  assumes "(s::32 word) \<le> 9"
  shows "s \<in> {0, 1, 2, 3, 4, 5, 6, 7, 8, 9}"
proof -
  have "unat s \<le> 9" using assms by (simp add: word_le_nat_alt)
  then have "unat s \<in> {0, 1, 2, 3, 4, 5, 6, 7, 8, 9}" by auto
  then have "(of_nat (unat s) :: 32 word) \<in> of_nat ` {0, 1, 2, 3, 4, 5, 6, 7, 8, 9}" by blast
  then show ?thesis by simp
qed

lemma pow10_entry:
  assumes "(s::32 word) \<le> 9"
  shows "0 \<le> sint (9 - s) \<and> sint (9 - s) < int (length pow10TableInt64) \<and>
         sint (pow10TableInt64 ! nat (sint (9 - s))) = 10 ^ (9 - unat s)"
  using small_scale [OF assms] by (auto simp add: pow10TableInt64_def)

lemma clock_bounds:
  "0 \<le> time_Hour t" "time_Hour t \<le> 23" "0 \<le> time_Minute t" "time_Minute t \<le> 59"
  "0 \<le> time_Second t" "time_Second t \<le> 59"
  by (simp_all add: time_Hour_def time_Minute_def time_Second_def pos_imp_zdiv_nonneg_iff)

lemma nanosecond_bounds: "0 \<le> time_Nanosecond t" "time_Nanosecond t < 2 ^ 30"
  using uint_bounded [of "nsec t"] by (simp_all add: time_Nanosecond_def)

lemma nanos_bounds: "0 \<le> nanosSinceMidnight t" "nanosSinceMidnight t < 2 ^ 63"
  using clock_bounds [of t] nanosecond_bounds [of t]
  by (simp_all add: nanosSinceMidnight_def)

lemma clock_sum:
  "(x::int) mod 86400 div 3600 * 3600 + x mod 3600 div 60 * 60 + x mod 60 = x mod 86400"
proof -
  have a: "x mod 3600 mod 60 = x mod 60" by (simp add: mod_mod_cancel)
  have b: "x mod 86400 mod 3600 = x mod 3600" by (simp add: mod_mod_cancel)
  have "x mod 3600 div 60 * 60 + x mod 3600 mod 60 = x mod 3600"
    by (rule div_mult_mod_eq)
  moreover have "x mod 86400 div 3600 * 3600 + x mod 86400 mod 3600 = x mod 86400"
    by (rule div_mult_mod_eq)
  ultimately show ?thesis using a b by linarith
qed

lemma nanos_of_instant:
  "nanosSinceMidnight (time_UTC t) = (sint (unixSec t) mod 86400) * 1000000000 + uint (nsec t)"
  using clock_sum [of "sint (unixSec t)"]
  by (simp add: nanosSinceMidnight_def time_Hour_def time_Minute_def time_Second_def
      time_Nanosecond_def localSec_def time_UTC_def)

lemma time_present:
  assumes "val \<noteq> AnyNil" "ValueAsTimestamp ext val = Inr t" "time_scale c \<le> 9"
  shows "timeConverter_ValidateAndConvert ext c stats val buf =
     written
       (updateIntStats stats (int128_FromInt64 (int64_div (word_of_int (nanosSinceMidnight (time_UTC t)))
          (pow10TableInt64 ! nat (sint (9 - time_scale c)))))) buf
       (WriteInt128 buf (int128_FromInt64 (int64_div (word_of_int (nanosSinceMidnight (time_UTC t)))
          (pow10TableInt64 ! nat (sint (9 - time_scale c))))))"
  using assms pow10_entry [of "time_scale c"]
  by (simp add: timeConverter_ValidateAndConvert_def Let_def)

lemma sint_timeValue:
  assumes "(s::32 word) \<le> 9"
  shows "sint (int128_FromInt64 (int64_div (word_of_int (nanosSinceMidnight t))
            (pow10TableInt64 ! nat (sint (9 - s)))))
         = nanosSinceMidnight t div 10 ^ (9 - unat s)"
proof -
  have p: "sint (pow10TableInt64 ! nat (sint (9 - s))) = 10 ^ (9 - unat s)"
    using pow10_entry [OF assms] by simp
  have n: "sint (word_of_int (nanosSinceMidnight t) :: 64 word) = nanosSinceMidnight t"
    using nanos_bounds [of t] by (simp add: signed_of_int signed_take_bit_int_eq_self)
  have "sint (int64_div (word_of_int (nanosSinceMidnight t)) (pow10TableInt64 ! nat (sint (9 - s))))
      = go_div (nanosSinceMidnight t) (10 ^ (9 - unat s))"
    using p n by (simp add: sint_int64_div)
  then show ?thesis
    using nanos_bounds [of t] by (simp add: sint_FromInt64 go_div_pos)
qed

lemma last_nanosecond:
  "nanosSinceMidnight (time_UTC (instant 86399 999999999)) = 86399999999999"
  by (simp add: nanos_of_instant instant_def)

text \<open>
  C6. For a value that is not nil and that the timestamp coercion turns into \<open>t\<close>, a
  scale from 0 to 9 and a buffer with room: the time-of-day converter writes, and counts
  in the statistics, the number whose value is the nanoseconds since midnight of \<open>t\<close> in
  UTC (hour, minute, second and nanosecond of the clock, which is the second of the day
  times \<open>10 ^ 9\<close> plus the nanosecond) divided by \<open>10 ^ (9 - scale)\<close> and rounded down.
  At 23:59:59.999999999 the values for the scales 0 to 9 are 86399, 863999, and so on
  up to 86399999999999.
\<close>

theorem time_of_day_conversion:
  assumes "val \<noteq> AnyNil" "ValueAsTimestamp ext val = Inr t" "time_scale c \<le> 9" "hasRoom buf"
  shows
    "(\<exists>v. sint v = nanosSinceMidnight (time_UTC t) div 10 ^ (9 - unat (time_scale c)) \<and>
        ValidateAndConvert ext (TimeConverter c) stats val buf =
          (Ok, updateIntStats stats v, stored buf (int128Cell buf v))) \<and>
     nanosSinceMidnight (time_UTC t)
       = (sint (unixSec t) mod 86400) * 1000000000 + uint (nsec t) \<and>
     map (\<lambda>s. nanosSinceMidnight (time_UTC (instant 86399 999999999)) div 10 ^ (9 - s)) [0..<10]
       = [86399, 863999, 8639999, 86399999, 863999999, 8639999999, 86399999999,
          863999999999, 8639999999999, 86399999999999]"
proof -
  let ?v = "int128_FromInt64 (int64_div (word_of_int (nanosSinceMidnight (time_UTC t)))
          (pow10TableInt64 ! nat (sint (9 - time_scale c))))"
  have "ValidateAndConvert ext (TimeConverter c) stats val buf =
          (Ok, updateIntStats stats ?v, stored buf (int128Cell buf ?v))"
    using assms by (simp add: time_present WriteInt128_hasRoom written_def)
  moreover have "sint ?v = nanosSinceMidnight (time_UTC t) div 10 ^ (9 - unat (time_scale c))"
    using assms(3) by (rule sint_timeValue)
  ultimately have "\<exists>v. sint v = nanosSinceMidnight (time_UTC t) div 10 ^ (9 - unat (time_scale c)) \<and>
        ValidateAndConvert ext (TimeConverter c) stats val buf =
          (Ok, updateIntStats stats v, stored buf (int128Cell buf v))"
    by blast
  moreover have "map (\<lambda>s. nanosSinceMidnight (time_UTC (instant 86399 999999999)) div 10 ^ (9 - s)) [0..<10]
       = [86399, 863999, 8639999, 86399999, 863999999, 8639999999, 86399999999,
          863999999999, 8639999999999, 86399999999999]"
    by (simp add: last_nanosecond upt_rec [of _ "numeral n" for n] upt_rec [of _ "Suc n" for n])
  ultimately show ?thesis
    using nanos_of_instant [of t] by simp
qed

theorem time_of_day_conversion_witness:
  "AnyTime (instant 86399 999999999) \<noteq> AnyNil \<and>
   ValueAsTimestamp sampleExternals (AnyTime (instant 86399 999999999))
     = Inr (instant 86399 999999999) \<and>
   time_scale \<lparr>time_nullable = False, time_scale = 3\<rparr> \<le> 9 \<and>
   hasRoom (columnOf typedBufferImpl 1) \<and>
   (\<exists>v. sint v = 86399999 \<and>
      ValidateAndConvert sampleExternals (TimeConverter \<lparr>time_nullable = False, time_scale = 3\<rparr>)
          freshStats (AnyTime (instant 86399 999999999)) (columnOf typedBufferImpl 1)
        = (Ok, updateIntStats freshStats v,
           stored (columnOf typedBufferImpl 1) (int128Cell (columnOf typedBufferImpl 1) v)))"
proof -
  have s: "ValueAsTimestamp sampleExternals (AnyTime t) = Inr t" for t
    by (simp add: sampleExternals_def)
  show ?thesis
    using
      time_of_day_conversion [of "AnyTime (instant 86399 999999999)" sampleExternals
        "instant 86399 999999999" "\<lparr>time_nullable = False, time_scale = 3\<rparr>"
        "columnOf typedBufferImpl 1" freshStats]
      hasRoom_columnOf1 [of typedBufferImpl]
    by (simp add: s last_nanosecond)
qed

subsection \<open>The floating-point converter\<close>

lemma double_present:
  assumes "val \<noteq> AnyNil" "ValueAsFloat64 ext val = Inr v"
  shows "doubleConverter_ValidateAndConvert ext c stats val buf =
     written (updateRealStats stats v) buf (WriteFloat64 buf v)"
  using assms by (simp add: doubleConverter_ValidateAndConvert_def)

lemma WriteFloat64_hasRoom:
  "hasRoom b \<Longrightarrow> WriteFloat64 b v = Some (stored b (Level (DoubleValue v) 0 1 (columnIndex b)))"
  by (simp add: WriteFloat64_def WriteValue_hasRoom)

lemma isNaN_quiet: "isNaN 0x7FF8000000000000"
  by (simp add: isNaN_def float_magnitude_def)

lemma go_min_NaN: "isNaN (go_min x y) \<longleftrightarrow> isNaN x \<or> isNaN y"
  by (auto simp add: go_min_def)

lemma go_max_NaN: "isNaN (go_max x y) \<longleftrightarrow> isNaN x \<or> isNaN y"
  by (auto simp add: go_max_def)

text \<open>
  C9, as stated, fails: a NaN that the coercion returns is written and becomes both
  \<^verbatim>\<open>minRealVal\<close> and \<^verbatim>\<open>maxRealVal\<close>, and the call returns success.
\<close>

theorem nan_reaches_statistics:
  "ValidateAndConvert sampleExternals (DoubleConverter \<lparr>double_nullable = False\<rparr>) freshStats
       (AnyFloat64 0x7FF8000000000000) (columnOf typedBufferImpl 1)
     = (Ok,
        freshStats\<lparr>minRealVal := 0x7FF8000000000000, maxRealVal := 0x7FF8000000000000,
          first := False\<rparr>,
        stored (columnOf typedBufferImpl 1) (Level (DoubleValue 0x7FF8000000000000) 0 1 0)) \<and>
   isNaN 0x7FF8000000000000"
  by (simp add: doubleConverter_ValidateAndConvert_def sampleExternals_def updateRealStats_def
      written_def WriteFloat64_hasRoom hasRoom_columnOf isNaN_quiet freshStats_def
      columnIndex_columnOf Let_def)

text \<open>
  C9, amended. The floating-point converter has no NaN check of its own: for a value that
  is not nil and that the coercion turns into the \<^verbatim>\<open>float64\<close> \<open>v\<close>, on a buffer with
  room, it returns success, writes \<open>v\<close> and updates the minimum and maximum with \<open>v\<close>.
  When \<open>v\<close> is not a NaN and the statistics hold none (or \<open>v\<close> is the first value), the
  new minimum and maximum are not NaN; when \<open>v\<close> is a NaN, both become NaN.
\<close>

theorem double_conversion:
  assumes "val \<noteq> AnyNil" "ValueAsFloat64 ext val = Inr v" "hasRoom buf"
  shows
    "ValidateAndConvert ext (DoubleConverter c) stats val buf =
       (Ok, updateRealStats stats v, stored buf (Level (DoubleValue v) 0 1 (columnIndex buf))) \<and>
     (\<not> isNaN v \<and> (first stats \<or> \<not> isNaN (minRealVal stats) \<and> \<not> isNaN (maxRealVal stats)) \<longrightarrow>
        \<not> isNaN (minRealVal (updateRealStats stats v)) \<and>
        \<not> isNaN (maxRealVal (updateRealStats stats v))) \<and>
     (isNaN v \<longrightarrow>
        isNaN (minRealVal (updateRealStats stats v)) \<and>
        isNaN (maxRealVal (updateRealStats stats v)))"
  using assms
  by (auto simp add: double_present written_def WriteFloat64_hasRoom updateRealStats_def
      go_min_NaN go_max_NaN)

theorem double_conversion_witness:
  "AnyFloat64 0x3FF0000000000000 \<noteq> AnyNil \<and>
   ValueAsFloat64 sampleExternals (AnyFloat64 0x3FF0000000000000) = Inr 0x3FF0000000000000 \<and>
   hasRoom (columnOf typedBufferImpl 1) \<and>
   ValidateAndConvert sampleExternals (DoubleConverter \<lparr>double_nullable = False\<rparr>) freshStats
       (AnyFloat64 0x3FF0000000000000) (columnOf typedBufferImpl 1)
     = (Ok, updateRealStats freshStats 0x3FF0000000000000,
        stored (columnOf typedBufferImpl 1)
          (Level (DoubleValue 0x3FF0000000000000) 0 1 (columnIndex (columnOf typedBufferImpl 1)))) \<and>
   \<not> isNaN 0x3FF0000000000000 \<and> first freshStats \<and>
   \<not> isNaN (minRealVal (updateRealStats freshStats 0x3FF0000000000000)) \<and>
   \<not> isNaN (maxRealVal (updateRealStats freshStats 0x3FF0000000000000)) \<and>
   AnyFloat64 0x7FF8000000000000 \<noteq> AnyNil \<and>
   ValueAsFloat64 sampleExternals (AnyFloat64 0x7FF8000000000000) = Inr 0x7FF8000000000000 \<and>
   isNaN 0x7FF8000000000000 \<and>
   isNaN (minRealVal (updateRealStats freshStats 0x7FF8000000000000)) \<and>
   isNaN (maxRealVal (updateRealStats freshStats 0x7FF8000000000000))"
proof -
  have n: "\<not> isNaN 0x3FF0000000000000"
    by (simp add: isNaN_def float_magnitude_def)
  have f: "first freshStats" by (simp add: freshStats_def)
  have s: "ValueAsFloat64 sampleExternals (AnyFloat64 x) = Inr x" for x
    by (simp add: sampleExternals_def)
  show ?thesis
    using
      double_conversion [of "AnyFloat64 0x3FF0000000000000" sampleExternals "0x3FF0000000000000"
        "columnOf typedBufferImpl 1" "\<lparr>double_nullable = False\<rparr>" freshStats]
      double_conversion [of "AnyFloat64 0x7FF8000000000000" sampleExternals "0x7FF8000000000000"
        "columnOf typedBufferImpl 1" "\<lparr>double_nullable = False\<rparr>" freshStats]
      hasRoom_columnOf1 [of typedBufferImpl] n f isNaN_quiet
    by (simp add: s)
qed

subsection \<open>The narrow buffers\<close>

lemma be_uint_snoc: "be_uint (bs @ [b]) = be_uint bs * 256 + uint b"
  by (simp add: be_uint_def)

lemma length_be_bytes: "length (be_bytes n x) = n"
  by (induction n arbitrary: x) simp_all

lemma uint_byte_of_mod: "uint (word_of_int (x mod 256) :: byte) = x mod 256"
  by (simp add: uint_word_of_int)

lemma be_uint_be_bytes: "be_uint (be_bytes n x) = x mod 256 ^ n"
proof (induction n arbitrary: x)
  case 0
  then show ?case by (simp add: be_uint_def)
next
  case (Suc n)
  have "x div 256 mod 256 ^ n * 256 + x mod 256 = x mod (256 * 256 ^ n)"
    by (simp add: zmod_zmult2_eq)
  then show ?case
    by (simp add: be_uint_snoc Suc.IH uint_byte_of_mod)
qed

lemma be_sint_ToBigEndian: "be_sint (int128_ToBigEndian v) = sint v"
proof -
  have "be_uint (int128_ToBigEndian v) = uint v mod 256 ^ 16"
    by (simp add: int128_ToBigEndian_def be_uint_be_bytes)
  moreover have "uint v mod 256 ^ 16 = uint v"
    using uint_bounded [of v] by simp
  ultimately show ?thesis
    by (simp add: be_sint_def int128_ToBigEndian_def length_be_bytes sint_uint)
qed

lemma ucast_down_64: "(ucast (v :: 128 word) :: 64 word) = scast v"
  by (simp add: down_cast_same [symmetric] is_down)

lemma ucast_down_32: "(ucast (w :: 64 word) :: 32 word) = scast w"
  by (simp add: down_cast_same [symmetric] is_down)

lemma sint_ToInt64:
  assumes "- (2 ^ 63) \<le> sint v" "sint v < 2 ^ 63"
  shows "sint (int128_ToInt64 v) = sint v"
  using assms
  by (simp add: int128_ToInt64_def ucast_down_64 signed_scast_eq signed_take_bit_int_eq_self)

lemma sint_ToInt32:
  assumes "- (2 ^ 31) \<le> sint v" "sint v < 2 ^ 31"
  shows "sint (ucast (int128_ToInt64 v) :: 32 word) = sint v"
proof -
  have a: "sint (int128_ToInt64 v) = sint v"
    using assms by (intro sint_ToInt64) simp_all
  have "sint (ucast (int128_ToInt64 v) :: 32 word) = signed_take_bit 31 (sint (int128_ToInt64 v))"
    by (simp only: ucast_down_32 signed_scast_eq) simp
  then show ?thesis
    using assms a by (simp add: signed_take_bit_int_eq_self)
qed


lemma logicalValue_generic:
  "logicalValue (int128Cell (b\<lparr>kind := typedBufferImpl\<rparr>) v) = Some (sint v)"
  by (simp add: int128Cell_def be_sint_ToBigEndian)

lemma logicalValue_int64:
  "- (2 ^ 63) \<le> sint v \<Longrightarrow> sint v < 2 ^ 63 \<Longrightarrow>
     logicalValue (int128Cell (b\<lparr>kind := int64Buffer\<rparr>) v) = Some (sint v)"
  by (simp add: int128Cell_def sint_ToInt64)

lemma logicalValue_int32:
  "- (2 ^ 31) \<le> sint v \<Longrightarrow> sint v < 2 ^ 31 \<Longrightarrow>
     logicalValue (int128Cell (b\<lparr>kind := int32Buffer\<rparr>) v) = Some (sint v)"
  by (simp add: int128Cell_def sint_ToInt32)

lemma hasRoom_kind: "hasRoom (b\<lparr>kind := k\<rparr>) = hasRoom b"
  by (simp add: hasRoom_def cellIndex_def)

text \<open>
  C4, amended. On a buffer with room, \<^verbatim>\<open>typedBufferImpl.WriteInt128\<close> stores at the
  cursor a cell whose logical value is the value of the number, for every number;
  \<^verbatim>\<open>int64Buffer.WriteInt128\<close> stores at the same place a cell with the same logical
  value when the number lies in the range of \<^verbatim>\<open>int64\<close>, and
  \<^verbatim>\<open>int32Buffer.WriteInt128\<close> when it lies in the range of \<^verbatim>\<open>int32\<close>.
\<close>

theorem narrow_buffers_agree_in_range:
  assumes "hasRoom b"
  shows
    "(\<exists>c. WriteInt128 (b\<lparr>kind := typedBufferImpl\<rparr>) v
            = Some (stored (b\<lparr>kind := typedBufferImpl\<rparr>) c) \<and>
          logicalValue c = Some (sint v)) \<and>
     (- (2 ^ 63) \<le> sint v \<and> sint v < 2 ^ 63 \<longrightarrow>
        (\<exists>c. WriteInt128 (b\<lparr>kind := int64Buffer\<rparr>) v
              = Some (stored (b\<lparr>kind := int64Buffer\<rparr>) c) \<and>
            logicalValue c = Some (sint v))) \<and>
     (- (2 ^ 31) \<le> sint v \<and> sint v < 2 ^ 31 \<longrightarrow>
        (\<exists>c. WriteInt128 (b\<lparr>kind := int32Buffer\<rparr>) v
              = Some (stored (b\<lparr>kind := int32Buffer\<rparr>) c) \<and>
            logicalValue c = Some (sint v)))"
  using assms
  by (auto simp add: WriteInt128_hasRoom hasRoom_kind logicalValue_generic logicalValue_int64
      logicalValue_int32 simp del: logicalValue.simps)

lemma sixteen:
  "(16::nat) = Suc (Suc (Suc (Suc (Suc (Suc (Suc (Suc (Suc (Suc (Suc (Suc (Suc (Suc (Suc (Suc
     0)))))))))))))))"
  by simp

lemma be_bytes_example:
  "int128_ToBigEndian 2147483648 = [0, 0, 0, 0, 0, 0, 0, 0, 0, 0, 0, 0, 128, 0, 0, 0]"
proof -
  have u: "uint (2147483648 :: Num) = 2147483648" by simp
  show ?thesis unfolding int128_ToBigEndian_def u sixteen by simp
qed

lemma be_bytes_example2:
  "int128_ToBigEndian 9223372036854775808 = [0, 0, 0, 0, 0, 0, 0, 0, 128, 0, 0, 0, 0, 0, 0, 0]"
proof -
  have u: "uint (9223372036854775808 :: Num) = 9223372036854775808" by simp
  show ?thesis unfolding int128_ToBigEndian_def u sixteen by simp
qed

lemma be_sint_example:
  "be_sint [0, 0, 0, 0, 0, 0, 0, 0, 0, 0, 0, 0, 128, 0, 0, 0] = 2147483648"
  by (simp add: be_sint_def be_uint_def)

lemma be_sint_example2:
  "be_sint [0, 0, 0, 0, 0, 0, 0, 0, 128, 0, 0, 0, 0, 0, 0, 0] = 9223372036854775808"
  by (simp add: be_sint_def be_uint_def)

lemma narrow_example32: "(ucast (int128_ToInt64 2147483648) :: 32 word) = - 2147483648"
  by (simp add: int128_ToInt64_def)

lemma narrow_example64: "int128_ToInt64 9223372036854775808 = - 9223372036854775808"
  by (simp add: int128_ToInt64_def)

text \<open>
  C4, as stated, fails: for \<open>2 ^ 31\<close> the 32-bit buffer stores a cell that reads
  \<open>- 2 ^ 31\<close>, and for \<open>2 ^ 63\<close> the 64-bit buffer one that reads \<open>- 2 ^ 63\<close>, while the
  generic buffer stores cells that read \<open>2 ^ 31\<close> and \<open>2 ^ 63\<close>.
\<close>

theorem narrow_buffers_truncate:
  "WriteInt128 (columnOf int32Buffer 1) 2147483648
     = Some (stored (columnOf int32Buffer 1) (Level (Int32Value (- 2147483648)) 0 1 0)) \<and>
   logicalValue (Level (Int32Value (- 2147483648)) 0 1 0) = Some (- 2147483648) \<and>
   WriteInt128 (columnOf typedBufferImpl 1) 2147483648
     = Some (stored (columnOf typedBufferImpl 1)
         (Level (FixedLenByteArrayValue [0, 0, 0, 0, 0, 0, 0, 0, 0, 0, 0, 0, 128, 0, 0, 0]) 0 1 0)) \<and>
   logicalValue
       (Level (FixedLenByteArrayValue [0, 0, 0, 0, 0, 0, 0, 0, 0, 0, 0, 0, 128, 0, 0, 0]) 0 1 0)
     = Some 2147483648 \<and>
   WriteInt128 (columnOf int64Buffer 1) 9223372036854775808
     = Some (stored (columnOf int64Buffer 1) (Level (Int64Value (- 9223372036854775808)) 0 1 0)) \<and>
   logicalValue (Level (Int64Value (- 9223372036854775808)) 0 1 0) = Some (- 9223372036854775808) \<and>
   WriteInt128 (columnOf typedBufferImpl 1) 9223372036854775808
     = Some (stored (columnOf typedBufferImpl 1)
         (Level (FixedLenByteArrayValue [0, 0, 0, 0, 0, 0, 0, 0, 128, 0, 0, 0, 0, 0, 0, 0]) 0 1 0)) \<and>
   logicalValue
       (Level (FixedLenByteArrayValue [0, 0, 0, 0, 0, 0, 0, 0, 128, 0, 0, 0, 0, 0, 0, 0]) 0 1 0)
     = Some 9223372036854775808"
  by (simp add: WriteInt128_hasRoom hasRoom_columnOf int128Cell_def kind_columnOf
      columnIndex_columnOf be_bytes_example be_bytes_example2 narrow_example32 narrow_example64
      be_sint_example be_sint_example2)

theorem narrow_buffers_agree_in_range_witness:
  "hasRoom (columnOf typedBufferImpl 1) \<and>
   (\<exists>c. WriteInt128 (columnOf typedBufferImpl 1\<lparr>kind := typedBufferImpl\<rparr>) (- 5)
          = Some (stored (columnOf typedBufferImpl 1\<lparr>kind := typedBufferImpl\<rparr>) c) \<and>
        logicalValue c = Some (sint (- 5 :: Num))) \<and>
   - (2 ^ 63) \<le> sint (- 5 :: Num) \<and> sint (- 5 :: Num) < 2 ^ 63 \<and>
   (\<exists>c. WriteInt128 (columnOf typedBufferImpl 1\<lparr>kind := int64Buffer\<rparr>) (- 5)
          = Some (stored (columnOf typedBufferImpl 1\<lparr>kind := int64Buffer\<rparr>) c) \<and>
        logicalValue c = Some (sint (- 5 :: Num))) \<and>
   - (2 ^ 31) \<le> sint (- 5 :: Num) \<and> sint (- 5 :: Num) < 2 ^ 31 \<and>
   (\<exists>c. WriteInt128 (columnOf typedBufferImpl 1\<lparr>kind := int32Buffer\<rparr>) (- 5)
          = Some (stored (columnOf typedBufferImpl 1\<lparr>kind := int32Buffer\<rparr>) c) \<and>
        logicalValue c = Some (sint (- 5 :: Num)))"
proof -
  have s: "sint (- 5 :: Num) = - 5" by simp
  show ?thesis
    using narrow_buffers_agree_in_range [of "columnOf typedBufferImpl 1" "- 5"]
      hasRoom_columnOf1 [of typedBufferImpl]
    unfolding s by simp
qed

subsection \<open>The fixed-point converter\<close>

lemma switch_is_path: "numberConverter_switch ext c val = numberPath ext c val"
  by (cases val) (simp_all add: numberConverter_switch_def numberPath_def)

lemma signed_value:
  "nativeSigned val = Some n \<Longrightarrow> sint (int128_FromInt64 (word_of_int n)) = n"
  by (cases val) (auto simp add: sint_FromInt64 sint_up_scast is_up)


lemma sint_FromUint64: "sint (int128_FromUint64 w) = uint w"
proof -
  have "uint (ucast w :: Num) = uint w" by (simp add: uint_up_ucast is_up)
  moreover have "- (2 ^ 127) \<le> uint w"
    by (rule order_trans [OF _ uint_nonnegative]) simp
  moreover have "uint w < 2 ^ 64" using uint_bounded [of w] by simp
  then have "uint w < 2 ^ 127" by (rule less_trans) simp
  ultimately show ?thesis
    by (simp add: int128_FromUint64_def sint_uint signed_take_bit_int_eq_self)
qed

lemma unsigned_value:
  "nativeUnsigned val = Some n \<Longrightarrow> sint (int128_FromUint64 (word_of_int n)) = n"
  by (cases val) (auto simp add: sint_FromUint64 uint_up_ucast is_up)

lemma number_present:
  assumes "val \<noteq> AnyNil"
  shows "numberConverter_ValidateAndConvert ext c stats val buf =
     (case numberPath ext c val of
        Inl e \<Rightarrow> (Err e, stats, buf)
      | Inr v \<Rightarrow>
          if hasRoom buf then (Ok, updateIntStats stats v, stored buf (int128Cell buf v))
          else (Panic, updateIntStats stats v, buf))"
  using assms
  by (cases "hasRoom buf")
     (simp_all add: numberConverter_ValidateAndConvert_def switch_is_path written_def
        WriteInt128_hasRoom WriteInt128_noRoom Let_def split: sum.splits)

text \<open>
  What holds of C3: for a value that is not nil the converter does what the funnel gives.
  An error of the funnel is returned as it is, with statistics and buffer unchanged; a
  number of the funnel is counted and written unchanged; and the number handed to
  \<^verbatim>\<open>Rescale\<close> for a native integer has the value of that integer.
\<close>

lemma number_funnel:
  assumes "val \<noteq> AnyNil"
  shows
    "ValidateAndConvert ext (NumberConverter c) stats val buf =
       (case numberPath ext c val of
          Inl e \<Rightarrow> (Err e, stats, buf)
        | Inr v \<Rightarrow>
            if hasRoom buf then (Ok, updateIntStats stats v, stored buf (int128Cell buf v))
            else (Panic, updateIntStats stats v, buf)) \<and>
     (\<forall>n. nativeSigned val = Some n \<longrightarrow> sint (int128_FromInt64 (word_of_int n)) = n) \<and>
     (\<forall>n. nativeUnsigned val = Some n \<longrightarrow> sint (int128_FromUint64 (word_of_int n)) = n)"
  using assms by (simp add: number_present signed_value unsigned_value)





subsection \<open>The timestamp converter\<close>

lemma timestamp_switch_string:
  "timestampConverter_switch ext (AnyString s) = Inr (s, zeroTime)"
  "timestampConverter_switch ext (AnyBytes s) = Inr (s, zeroTime)"
  by (simp_all add: timestampConverter_switch_def)

lemma timestamp_after_switch:
  assumes "val \<noteq> AnyNil" "timestampConverter_switch ext val = Inr (s, t0)"
  shows "timestampConverter_ValidateAndConvert ext c stats val buf =
     (case timestampConverter_parse ext c s t0 of
        Inl err \<Rightarrow> (Err err, stats, buf)
      | Inr t1 \<Rightarrow>
          if \<not> FitsInPrecision ext
               (snowflakeTimestampInt ext (if timestamp_trimTZ c then time_UTC t1 else t1)
                  (timestamp_scale c) (timestamp_includeTZ c))
               (timestamp_precision c)
          then (Err (PrecisionOverflow (if timestamp_trimTZ c then time_UTC t1 else t1)
                  (snowflakeTimestampInt ext (if timestamp_trimTZ c then time_UTC t1 else t1)
                     (timestamp_scale c) (timestamp_includeTZ c))
                  (timestamp_precision c)), stats, buf)
          else written
                 (updateIntStats stats
                    (snowflakeTimestampInt ext (if timestamp_trimTZ c then time_UTC t1 else t1)
                       (timestamp_scale c) (timestamp_includeTZ c))) buf
                 (WriteInt128 buf
                    (snowflakeTimestampInt ext (if timestamp_trimTZ c then time_UTC t1 else t1)
                       (timestamp_scale c) (timestamp_includeTZ c))))"
  unfolding timestampConverter_ValidateAndConvert_def Let_def using assms by simp

lemma timestamp_parse_cases:
  "timestampConverter_parse ext c s t =
     (if s = [] then Inr t
      else case ParseInLocation ext s (timestamp_defaultTZ c) of
        Inl err \<Rightarrow> Inl (TimestampParseFailure s) | Inr t' \<Rightarrow> Inr t')"
  by (simp add: timestampConverter_parse_def)

lemma sint_zero_second: "sint (int128_FromInt64 (- 62135596800)) = - 62135596800"
  by (simp add: sint_FromInt64)

text \<open>
  C8 at the empty string. With a parser that refuses every string, and so the empty one,
  the timestamp converter returns success for the empty string: \<^verbatim>\<open>if s != ""\<close> skips
  the parser, and the zero \<^verbatim>\<open>time.Time\<close> (January 1 of year 1, Unix second
  -62135596800) is encoded, counted and written. A string that is not empty gets the
  parse error that names it.
\<close>

theorem empty_string_is_not_parsed:
  "ParseInLocation sampleExternals [] (timestamp_defaultTZ sampleTimestamp)
     = Inl (ExternalError 9) \<and>
   ValidateAndConvert sampleExternals (TimestampConverter sampleTimestamp) freshStats
       (AnyString []) (columnOf typedBufferImpl 1)
     = (Ok, updateIntStats freshStats (int128_FromInt64 (- 62135596800)),
        stored (columnOf typedBufferImpl 1)
          (int128Cell (columnOf typedBufferImpl 1) (int128_FromInt64 (- 62135596800)))) \<and>
   ValidateAndConvert sampleExternals (TimestampConverter sampleTimestamp) freshStats
       (AnyString [120]) (columnOf typedBufferImpl 1)
     = (Err (TimestampParseFailure [120]), freshStats, columnOf typedBufferImpl 1)"
proof -
  have z: "time_UTC zeroTime = zeroTime" by (simp add: time_UTC_def zeroTime_def)
  have f: "FitsInPrecision sampleExternals (int128_FromInt64 (- 62135596800)) 18"
    by (simp add: sampleExternals_def sint_zero_second)
  have e: "snowflakeTimestampInt sampleExternals zeroTime s tz = int128_FromInt64 (- 62135596800)"
    for s tz by (simp add: sampleExternals_def zeroTime_def)
  have p: "ParseInLocation sampleExternals s l = Inl (ExternalError 9)" for s l
    by (simp add: sampleExternals_def)
  have t: "timestamp_trimTZ sampleTimestamp" "timestamp_precision sampleTimestamp = 18"
    by (simp_all add: sampleTimestamp_def)
  have a: "timestampConverter_ValidateAndConvert sampleExternals sampleTimestamp freshStats
       (AnyString []) (columnOf typedBufferImpl 1)
     = (Ok, updateIntStats freshStats (int128_FromInt64 (- 62135596800)),
        stored (columnOf typedBufferImpl 1)
          (int128Cell (columnOf typedBufferImpl 1) (int128_FromInt64 (- 62135596800))))"
    by (simp add: timestamp_after_switch [OF _ timestamp_switch_string(1)]
        timestamp_parse_cases z f e t written_def WriteInt128_hasRoom hasRoom_columnOf)
  have b: "timestampConverter_ValidateAndConvert sampleExternals sampleTimestamp freshStats
       (AnyString [120]) (columnOf typedBufferImpl 1)
     = (Err (TimestampParseFailure [120]), freshStats, columnOf typedBufferImpl 1)"
    by (simp add: timestamp_after_switch [OF _ timestamp_switch_string(1)]
        timestamp_parse_cases p)
  show ?thesis
    by (simp only: ValidateAndConvert.simps a b p simp_thms)
qed


lemma timestamp_parse_error_iff:
  assumes "s \<noteq> []"
  shows "fst (timestampConverter_ValidateAndConvert ext c stats (AnyString s) buf)
           = Err (TimestampParseFailure s)
         \<longleftrightarrow> (\<exists>e. ParseInLocation ext s (timestamp_defaultTZ c) = Inl e)"
proof (cases "ParseInLocation ext s (timestamp_defaultTZ c)")
  case (Inl e)
  then show ?thesis
    using assms
    by (simp add: timestamp_after_switch [OF _ timestamp_switch_string(1)] timestamp_parse_cases)
next
  case (Inr t1)
  then show ?thesis
    using assms
    by (simp add: timestamp_after_switch [OF _ timestamp_switch_string(1)] timestamp_parse_cases
        written_def split: option.splits)
qed

subsection \<open>The statistics of a column\<close>

lemma WriteInt128_cell: "WriteInt128 b v = WriteValue b (int128Cell b v)"
  by (simp add: WriteInt128_def int128Cell_def split: bufferKind.splits)

lemma cellStat_int128Cell: "cellStat (int128Cell (columnOf typedBufferImpl n) v) = Some (IntStat v)"
  by (simp add: int128Cell_def kind_columnOf be_sint_ToBigEndian)

lemma accepted_int:
  assumes "kindOfConverter c = IntKind"
    "\<And>stats buf. ValidateAndConvert ext c stats val buf
       = written (updateIntStats stats v) buf (WriteInt128 buf v)"
  shows "accepted ext c val (IntStat v) (\<lambda>b. int128Cell b v)"
  using assms by (simp add: accepted_def observe_def WriteInt128_cell cellStat_int128Cell)

lemma bool_step:
  assumes "val \<noteq> AnyNil"
  shows "(\<exists>x f. accepted ext (BoolConverter c) val x f) \<or> (\<exists>oc. refused ext (BoolConverter c) val oc)"
proof (cases "ValueAsBool ext val")
  case (Inl e)
  then have "refused ext (BoolConverter c) val (Err e)"
    using assms by (simp add: refused_def boolConverter_ValidateAndConvert_def)
  then show ?thesis by blast
next
  case (Inr b)
  then have "accepted ext (BoolConverter c) val (IntStat (if b then 1 else 0))
      (\<lambda>buf. Level (BooleanValue b) 0 1 (columnIndex buf))"
    using assms
    by (simp add: accepted_def boolConverter_ValidateAndConvert_def observe_def WriteBool_def
        int128_FromUint64_def)
  then show ?thesis by blast
qed

lemma number_step:
  assumes "val \<noteq> AnyNil"
  shows "(\<exists>x f. accepted ext (NumberConverter c) val x f) \<or> (\<exists>oc. refused ext (NumberConverter c) val oc)"
proof (cases "numberConverter_switch ext c val")
  case (Inl e)
  then have "refused ext (NumberConverter c) val (Err e)"
    using assms by (simp add: refused_def numberConverter_ValidateAndConvert_def)
  then show ?thesis by blast
next
  case (Inr v)
  then have "accepted ext (NumberConverter c) val (IntStat v) (\<lambda>b. int128Cell b v)"
    using assms by (intro accepted_int) (simp_all add: numberConverter_ValidateAndConvert_def)
  then show ?thesis by blast
qed

lemma double_step:
  assumes "val \<noteq> AnyNil"
  shows "(\<exists>x f. accepted ext (DoubleConverter c) val x f) \<or> (\<exists>oc. refused ext (DoubleConverter c) val oc)"
proof (cases "ValueAsFloat64 ext val")
  case (Inl e)
  then have "refused ext (DoubleConverter c) val (Err e)"
    using assms by (simp add: refused_def doubleConverter_ValidateAndConvert_def)
  then show ?thesis by blast
next
  case (Inr v)
  then have "accepted ext (DoubleConverter c) val (RealStat v)
      (\<lambda>buf. Level (DoubleValue v) 0 1 (columnIndex buf))"
    using assms
    by (simp add: accepted_def doubleConverter_ValidateAndConvert_def observe_def WriteFloat64_def)
  then show ?thesis by blast
qed

lemma binary_step:
  assumes "val \<noteq> AnyNil"
  shows "(\<exists>x f. accepted ext (BinaryConverter c) val x f) \<or> (\<exists>oc. refused ext (BinaryConverter c) val oc)"
proof (cases "ValueAsBytes ext val")
  case (Inl e)
  then have "refused ext (BinaryConverter c) val (Err e)"
    using assms by (simp add: refused_def binaryConverter_ValidateAndConvert_def)
  then show ?thesis by blast
next
  case (Inr v)
  consider (long) "int (length v) > binary_maxLength c"
    | (bad) "\<not> int (length v) > binary_maxLength c" "binary_utf8 c \<and> \<not> utf8_Valid v"
    | (good) "\<not> int (length v) > binary_maxLength c" "\<not> (binary_utf8 c \<and> \<not> utf8_Valid v)"
    by blast
  then show ?thesis
  proof cases
    case long
    then have "refused ext (BinaryConverter c) val
        (Err (ValueTooLong (int (length v)) (binary_maxLength c)))"
      using assms Inr by (simp add: refused_def binary_present)
    then show ?thesis by blast
  next
    case bad
    then have "refused ext (BinaryConverter c) val (Err InvalidUTF8)"
      using assms Inr by (simp add: refused_def binary_present)
    then show ?thesis by blast
  next
    case good
    then have "accepted ext (BinaryConverter c) val (StrStat v)
        (\<lambda>buf. Level (ByteArrayValue v) 0 1 (columnIndex buf))"
      using assms Inr by (auto simp add: accepted_def binary_present observe_def WriteBytes_def)
    then show ?thesis by blast
  qed
qed


lemma json_step:
  assumes "val \<noteq> AnyNil"
  shows "(\<exists>x f. \<forall>stats buf. jsonConverter_ValidateAndConvert ext c stats val buf
            = written (observe stats x) buf (WriteValue buf (f buf)) \<and>
            kindOfValue x = StrKind \<and> cellStat (f (columnOf typedBufferImpl 1)) = Some x) \<or>
         (\<exists>oc. oc \<noteq> Ok \<and> (\<forall>stats buf. jsonConverter_ValidateAndConvert ext c stats val buf
            = (oc, stats, buf)))"
proof (cases "int (length (gabsBytes ext val)) > json_maxLength c")
  case True
  then have "\<forall>stats buf. jsonConverter_ValidateAndConvert ext c stats val buf
      = (Err (ValueTooLong (int (length (gabsBytes ext val))) (json_maxLength c)), stats, buf)"
    using assms by (simp add: jsonConverter_ValidateAndConvert_def)
  then show ?thesis by blast
next
  case False
  then have "\<forall>stats buf. jsonConverter_ValidateAndConvert ext c stats val buf
      = written (observe stats (StrStat (gabsBytes ext val))) buf
          (WriteValue buf (Level (ByteArrayValue (gabsBytes ext val)) 0 1 (columnIndex buf))) \<and>
      kindOfValue (StrStat (gabsBytes ext val)) = StrKind \<and>
      cellStat (Level (ByteArrayValue (gabsBytes ext val)) 0 1
        (columnIndex (columnOf typedBufferImpl 1))) = Some (StrStat (gabsBytes ext val))"
    using assms by (simp add: jsonConverter_ValidateAndConvert_def observe_def WriteBytes_def Let_def)
  then show ?thesis
    by (intro disjI1 exI [of _ "StrStat (gabsBytes ext val)"]
        exI [of _ "\<lambda>buf. Level (ByteArrayValue (gabsBytes ext val)) 0 1 (columnIndex buf)"])
       simp
qed

lemma jsonArray_step:
  assumes "val \<noteq> AnyNil"
  shows "(\<exists>x f. accepted ext (JsonArrayConverter c) val x f) \<or>
         (\<exists>oc. refused ext (JsonArrayConverter c) val oc)"
proof (cases "isArray val")
  case False
  then have "refused ext (JsonArrayConverter c) val (Err NotJSONArray)"
    using assms by (simp add: refused_def jsonArrayConverter_ValidateAndConvert_def)
  then show ?thesis by blast
next
  case True
  then show ?thesis
    using json_step [OF assms, of ext c]
    by (auto simp add: accepted_def refused_def jsonArrayConverter_ValidateAndConvert_def)
qed

lemma jsonObject_step:
  assumes "val \<noteq> AnyNil"
  shows "(\<exists>x f. accepted ext (JsonObjectConverter c) val x f) \<or>
         (\<exists>oc. refused ext (JsonObjectConverter c) val oc)"
proof (cases "isObject val")
  case False
  then have "refused ext (JsonObjectConverter c) val (Err NotJSONObject)"
    using assms by (simp add: refused_def jsonObjectConverter_ValidateAndConvert_def)
  then show ?thesis by blast
next
  case True
  then show ?thesis
    using json_step [OF assms, of ext c]
    by (auto simp add: accepted_def refused_def jsonObjectConverter_ValidateAndConvert_def)
qed

lemma timestamp_step:
  assumes "val \<noteq> AnyNil"
  shows "(\<exists>x f. accepted ext (TimestampConverter c) val x f) \<or>
         (\<exists>oc. refused ext (TimestampConverter c) val oc)"
proof (cases "timestampConverter_switch ext val")
  case (Inl e)
  then have "refused ext (TimestampConverter c) val (Err e)"
    using assms by (simp add: refused_def timestampConverter_ValidateAndConvert_def)
  then show ?thesis by blast
next
  case (Inr p)
  obtain s t0 where p: "p = (s, t0)" by (cases p)
  note sw = Inr [unfolded p]
  show ?thesis
  proof (cases "timestampConverter_parse ext c s t0")
    case (Inl e)
    then have "refused ext (TimestampConverter c) val (Err e)"
      using assms by (simp add: refused_def timestamp_after_switch [OF _ sw])
    then show ?thesis by blast
  next
    case (Inr t1)
    let ?t = "if timestamp_trimTZ c then time_UTC t1 else t1"
    let ?v = "snowflakeTimestampInt ext ?t (timestamp_scale c) (timestamp_includeTZ c)"
    show ?thesis
    proof (cases "FitsInPrecision ext ?v (timestamp_precision c)")
      case False
      then have "refused ext (TimestampConverter c) val
          (Err (PrecisionOverflow ?t ?v (timestamp_precision c)))"
        using assms Inr by (simp add: refused_def timestamp_after_switch [OF _ sw])
      then show ?thesis by blast
    next
      case True
      then have "accepted ext (TimestampConverter c) val (IntStat ?v) (\<lambda>b. int128Cell b ?v)"
        using assms Inr
        by (intro accepted_int) (simp_all add: timestamp_after_switch [OF _ sw])
      then show ?thesis by blast
    qed
  qed
qed

lemma time_step:
  assumes "val \<noteq> AnyNil"
  shows "(\<exists>x f. accepted ext (TimeConverter c) val x f) \<or>
         (\<exists>oc. refused ext (TimeConverter c) val oc)"
proof (cases "ValueAsTimestamp ext val")
  case (Inl e)
  then have "refused ext (TimeConverter c) val (Err e)"
    using assms by (simp add: refused_def timeConverter_ValidateAndConvert_def)
  then show ?thesis by blast
next
  case (Inr t0)
  let ?i = "sint (9 - time_scale c)"
  show ?thesis
  proof (cases "?i < 0 \<or> int (length pow10TableInt64) \<le> ?i")
    case True
    then have "refused ext (TimeConverter c) val Panic"
      using assms Inr by (simp add: refused_def timeConverter_ValidateAndConvert_def Let_def)
    then show ?thesis by blast
  next
    case False
    let ?v = "int128_FromInt64 (int64_div (word_of_int (nanosSinceMidnight (time_UTC t0)))
          (pow10TableInt64 ! nat ?i))"
    from False have "accepted ext (TimeConverter c) val (IntStat ?v) (\<lambda>b. int128Cell b ?v)"
      using assms Inr
      by (intro accepted_int) (simp_all add: timeConverter_ValidateAndConvert_def Let_def)
    then show ?thesis by blast
  qed
qed

lemma date_step:
  assumes "val \<noteq> AnyNil"
  shows "(\<exists>x f. accepted ext (DateConverter c) val x f) \<or>
         (\<exists>oc. refused ext (DateConverter c) val oc)"
proof (cases "ValueAsTimestamp ext val")
  case (Inl e)
  then have "refused ext (DateConverter c) val (Err e)"
    using assms by (simp add: refused_def dateConverter_ValidateAndConvert_def)
  then show ?thesis by blast
next
  case (Inr t)
  show ?thesis
  proof (cases "time_Year (time_UTC t) < - 9999 \<or> time_Year (time_UTC t) > 9999")
    case True
    then have "refused ext (DateConverter c) val (Err (DateOutOfRange (time_Year (time_UTC t))))"
      using assms Inr by (simp add: refused_def date_present)
    then show ?thesis by blast
  next
    case False
    then have "accepted ext (DateConverter c) val
        (IntStat (int128_FromInt64 (int64_div (unixSec t) 86400)))
        (\<lambda>b. int128Cell b (int128_FromInt64 (int64_div (unixSec t) 86400)))"
      using assms Inr by (intro accepted_int) (simp_all add: date_present)
    then show ?thesis by blast
  qed
qed

lemma converter_step:
  assumes "val \<noteq> AnyNil"
  shows "(\<exists>x f. accepted ext c val x f) \<or> (\<exists>oc. refused ext c val oc)"
proof (cases c)
  case (BoolConverter k)
  then show ?thesis using bool_step [OF assms, of ext k] by simp
next
  case (NumberConverter k)
  then show ?thesis using number_step [OF assms, of ext k] by simp
next
  case (DoubleConverter k)
  then show ?thesis using double_step [OF assms, of ext k] by simp
next
  case (BinaryConverter k)
  then show ?thesis using binary_step [OF assms, of ext k] by simp
next
  case (JsonArrayConverter k)
  then show ?thesis using jsonArray_step [OF assms, of ext k] by simp
next
  case (JsonObjectConverter k)
  then show ?thesis using jsonObject_step [OF assms, of ext k] by simp
next
  case (TimestampConverter k)
  then show ?thesis using timestamp_step [OF assms, of ext k] by simp
next
  case (TimeConverter k)
  then show ?thesis using time_step [OF assms, of ext k] by simp
next
  case (DateConverter k)
  then show ?thesis using date_step [OF assms, of ext k] by simp
qed

lemma matrix_stored_columnOf: "matrix (stored (columnOf k (Suc n)) c) ! 0 = c"
  by (simp add: stored_def columnOf_def Prepare_def cellIndex_def)

lemma accepted_convertedValue:
  assumes "accepted ext c val x f"
  shows "convertedValue ext c val = Some x"
proof -
  let ?b = "columnOf typedBufferImpl 1"
  have v: "ValidateAndConvert ext c freshStats val ?b
      = (Ok, observe freshStats x, stored ?b (f ?b))"
    using assms
    by (simp add: accepted_def written_def WriteValue_hasRoom hasRoom_columnOf1 hasRoom_columnOf)
  show ?thesis
    using assms unfolding convertedValue_def v
    by (simp add: matrix_stored_columnOf accepted_def)
qed

lemma accepted_Ok:
  assumes "accepted ext c val x f" "ValidateAndConvert ext c stats val buf = (Ok, s2, b2)"
  shows "s2 = observe stats x"
  using assms by (auto simp add: accepted_def written_def split: option.splits)

lemma refused_not_Ok:
  assumes "refused ext c val oc"
  shows "ValidateAndConvert ext c stats val buf \<noteq> (Ok, s2, b2)"
  using assms by (auto simp add: refused_def)

lemma nil_convertedValue: "convertedValue ext c AnyNil = None"
proof -
  let ?b = "columnOf typedBufferImpl 1"
  show ?thesis
    unfolding convertedValue_def ValidateAndConvert_nil nullValue_cases
    by (simp add: matrix_stored_columnOf hasRoom_columnOf1 hasRoom_columnOf)
qed

lemma nil_Ok:
  assumes "ValidateAndConvert ext c stats AnyNil buf = (Ok, s2, b2)"
  shows "s2 = stats\<lparr>nullCount := nullCount stats + 1\<rparr>"
  using assms by (auto simp add: ValidateAndConvert_nil nullValue_cases split: if_splits)

lemma nullCount_observe: "nullCount (observe s x) = nullCount s"
  by (cases x) (simp_all add: observe_def updateIntStats_def updateRealStats_def
      updateStrStats_def Let_def)

lemma observe_nullCount: "(observe s x)\<lparr>nullCount := n\<rparr> = observe (s\<lparr>nullCount := n\<rparr>) x"
  by (cases x) (simp_all add: observe_def updateIntStats_def updateRealStats_def
      updateStrStats_def Let_def)

lemma convertColumn_Cons_Ok:
  assumes "convertColumn ext c stats (val # vals) buf = (Ok, s', b')"
  obtains s1 b1 where "ValidateAndConvert ext c stats val buf = (Ok, s1, b1)"
    and "convertColumn ext c s1 vals b1 = (Ok, s', b')"
proof -
  obtain oc s1 b1 where v: "ValidateAndConvert ext c stats val buf = (oc, s1, b1)"
    by (cases "ValidateAndConvert ext c stats val buf") auto
  with assms have "oc = Ok" by (cases oc) simp_all
  with v assms that show ?thesis by simp
qed

lemma convertedValues_Cons:
  "convertedValues ext c (val # vals) =
     (case convertedValue ext c val of None \<Rightarrow> convertedValues ext c vals
      | Some x \<Rightarrow> x # convertedValues ext c vals)"
  by (simp add: convertedValues_def map_filter_simps split: option.splits)

lemma convertColumn_stats:
  assumes "convertColumn ext c stats vals buf = (Ok, s', b')"
  shows "nullCount s' = nullCount stats + int (count_list vals AnyNil) \<and>
         s'\<lparr>nullCount := 0\<rparr> = foldl observe (stats\<lparr>nullCount := 0\<rparr>) (convertedValues ext c vals) \<and>
         (\<forall>x \<in> set (convertedValues ext c vals). kindOfValue x = kindOfConverter c)"
  using assms
proof (induction vals arbitrary: stats buf)
  case Nil
  then show ?case by (simp add: convertedValues_def map_filter_simps)
next
  case (Cons val vals)
  from Cons.prems obtain s1 b1 where
    v: "ValidateAndConvert ext c stats val buf = (Ok, s1, b1)" and
    r: "convertColumn ext c s1 vals b1 = (Ok, s', b')"
    by (rule convertColumn_Cons_Ok)
  note ih = Cons.IH [OF r]
  show ?case
  proof (cases "val = AnyNil")
    case True
    with v have "s1 = stats\<lparr>nullCount := nullCount stats + 1\<rparr>" by (simp add: nil_Ok)
    with ih True show ?thesis
      by (simp add: convertedValues_Cons nil_convertedValue)
  next
    case False
    from converter_step [OF False, of ext c] refused_not_Ok [of ext c val _ stats buf s1 b1] v
    obtain x f where a: "accepted ext c val x f" by blast
    have s1: "s1 = observe stats x" using a v by (rule accepted_Ok)
    have cv: "convertedValue ext c val = Some x" using a by (rule accepted_convertedValue)
    have k: "kindOfValue x = kindOfConverter c" using a by (simp add: accepted_def)
    from ih s1 cv k False show ?thesis
      by (simp add: convertedValues_Cons nullCount_observe observe_nullCount)
  qed
qed

lemma int_first: "first s \<Longrightarrow> intSummary (updateIntStats s v) [v]"
  by (simp add: intSummary_def updateIntStats_def)

lemma int_next:
  assumes "intSummary s is"
  shows "intSummary (updateIntStats s v) (is @ [v])"
proof -
  have ne: "sint ` set is \<noteq> {}" "finite (sint ` set is)"
    using assms by (auto simp add: intSummary_def)
  have mn: "Min (insert (sint v) (sint ` set is)) = min (sint v) (Min (sint ` set is))"
    using ne by (simp add: Min_insert)
  have mx: "Max (insert (sint v) (sint ` set is)) = max (sint v) (Max (sint ` set is))"
    using ne by (simp add: Max_insert)
  show ?thesis
    using assms
    by (auto simp add: intSummary_def updateIntStats_def int128_Min_def int128_Max_def
        int128_Less_def mn mx min_def max_def)
qed

lemma real_first: "first s \<Longrightarrow> realSummary (updateRealStats s v) [v]"
  by (simp add: realSummary_def updateRealStats_def)

lemma real_next:
  assumes "realSummary s rs"
  shows "realSummary (updateRealStats s v) (rs @ [v])"
proof (cases "\<exists>r \<in> set rs. isNaN r")
  case True
  then show ?thesis
    using assms by (auto simp add: realSummary_def updateRealStats_def go_min_NaN go_max_NaN)
next
  case False
  then have ne: "float_key ` set rs \<noteq> {}" "finite (float_key ` set rs)"
    using assms by (auto simp add: realSummary_def)
  have mn: "Min (insert (float_key v) (float_key ` set rs))
      = min (float_key v) (Min (float_key ` set rs))"
    using ne by (simp add: Min_insert)
  have mx: "Max (insert (float_key v) (float_key ` set rs))
      = max (float_key v) (Max (float_key ` set rs))"
    using ne by (simp add: Max_insert)
  have nn: "\<not> isNaN (minRealVal s)" "\<not> isNaN (maxRealVal s)"
    using assms False by (auto simp add: realSummary_def)
  show ?thesis
  proof (cases "isNaN v")
    case True
    then show ?thesis
      using assms by (auto simp add: realSummary_def updateRealStats_def go_min_NaN go_max_NaN)
  next
    case nv: False
    then show ?thesis
      using assms False nn
      by (auto simp add: realSummary_def updateRealStats_def go_min_def go_max_def mn mx
          min_def max_def)
  qed
qed

lemma bytes_Compare_less: "bytes_Compare a b < 0 \<longleftrightarrow> a < b"
  by (induction a b rule: bytes_Compare.induct) auto

lemma bytes_Compare_greater: "bytes_Compare a b > 0 \<longleftrightarrow> b < a"
  by (induction a b rule: bytes_Compare.induct) auto

lemma str_first: "first s \<Longrightarrow> strSummary (updateStrStats s v) [v]"
  by (simp add: strSummary_def updateStrStats_def)

lemma updateStrStats_next:
  assumes "\<not> first s"
  shows "\<not> first (updateStrStats s v)"
    "minStrVal (updateStrStats s v) = min v (minStrVal s)"
    "maxStrVal (updateStrStats s v) = max v (maxStrVal s)"
    "maxStrLen (updateStrStats s v) = max (int (length v)) (maxStrLen s)"
  using assms
  by (auto simp add: updateStrStats_def Let_def bytes_Compare_less bytes_Compare_greater
      min_def max_def)

lemma str_next:
  assumes "strSummary s ss"
  shows "strSummary (updateStrStats s v) (ss @ [v])"
proof -
  have ne: "set ss \<noteq> {}" and nf: "\<not> first s" using assms by (simp_all add: strSummary_def)
  have mn: "Min (insert v (set ss)) = min v (Min (set ss))"
    using ne by (simp add: Min_insert)
  have mx: "Max (insert v (set ss)) = max v (Max (set ss))"
    using ne by (simp add: Max_insert)
  have ml: "Max (insert (int (length v)) ((\<lambda>v. int (length v)) ` set ss))
      = max (int (length v)) (Max ((\<lambda>v. int (length v)) ` set ss))"
    using ne by (simp add: Max_insert)
  show ?thesis
    using assms
    by (simp add: strSummary_def updateStrStats_next [OF nf] mn mx ml)
qed

lemma kind_int:
  assumes "\<forall>x \<in> set xs. kindOfValue x = IntKind"
  shows "realsOf xs = []" "strsOf xs = []" "intsOf xs = [] \<longleftrightarrow> xs = []"
  using assms
  by (induction xs rule: intsOf.induct) simp_all

lemma kind_real:
  assumes "\<forall>x \<in> set xs. kindOfValue x = RealKind"
  shows "intsOf xs = []" "strsOf xs = []" "realsOf xs = [] \<longleftrightarrow> xs = []"
  using assms
  by (induction xs rule: realsOf.induct) simp_all

lemma kind_str:
  assumes "\<forall>x \<in> set xs. kindOfValue x = StrKind"
  shows "intsOf xs = []" "realsOf xs = []" "strsOf xs = [] \<longleftrightarrow> xs = []"
  using assms
  by (induction xs rule: strsOf.induct) simp_all

lemma fold_int:
  assumes "\<forall>x \<in> set xs. kindOfValue x = IntKind" "intSummary s is"
  shows "intSummary (foldl observe s xs) (is @ intsOf xs)"
  using assms
proof (induction xs arbitrary: s "is")
  case Nil
  then show ?case by simp
next
  case (Cons x xs)
  then obtain v where x: "x = IntStat v" by (cases x) simp_all
  have "intSummary (observe s x) (is @ [v])"
    using Cons.prems(2) by (simp add: x observe_def int_next)
  then have "intSummary (foldl observe (observe s x) xs) ((is @ [v]) @ intsOf xs)"
    using Cons.prems(1) by (intro Cons.IH) simp_all
  then show ?case by (simp add: x)
qed

lemma fold_real:
  assumes "\<forall>x \<in> set xs. kindOfValue x = RealKind" "realSummary s rs"
  shows "realSummary (foldl observe s xs) (rs @ realsOf xs)"
  using assms
proof (induction xs arbitrary: s rs)
  case Nil
  then show ?case by simp
next
  case (Cons x xs)
  then obtain v where x: "x = RealStat v" by (cases x) simp_all
  have "realSummary (observe s x) (rs @ [v])"
    using Cons.prems(2) by (simp add: x observe_def real_next)
  then have "realSummary (foldl observe (observe s x) xs) ((rs @ [v]) @ realsOf xs)"
    using Cons.prems(1) by (intro Cons.IH) simp_all
  then show ?case by (simp add: x)
qed

lemma fold_str:
  assumes "\<forall>x \<in> set xs. kindOfValue x = StrKind" "strSummary s ss"
  shows "strSummary (foldl observe s xs) (ss @ strsOf xs)"
  using assms
proof (induction xs arbitrary: s ss)
  case Nil
  then show ?case by simp
next
  case (Cons x xs)
  then obtain v where x: "x = StrStat v" by (cases x) simp_all
  have "strSummary (observe s x) (ss @ [v])"
    using Cons.prems(2) by (simp add: x observe_def str_next)
  then have "strSummary (foldl observe (observe s x) xs) ((ss @ [v]) @ strsOf xs)"
    using Cons.prems(1) by (intro Cons.IH) simp_all
  then show ?case by (simp add: x)
qed

lemma fold_from_first:
  assumes "\<forall>x \<in> set xs. kindOfValue x = k" "first s" "xs \<noteq> []"
  shows "k = IntKind \<longrightarrow> intSummary (foldl observe s xs) (intsOf xs)"
    "k = RealKind \<longrightarrow> realSummary (foldl observe s xs) (realsOf xs)"
    "k = StrKind \<longrightarrow> strSummary (foldl observe s xs) (strsOf xs)"
proof -
  obtain x rest where xs: "xs = x # rest" using assms(3) by (cases xs) simp_all
  show "k = IntKind \<longrightarrow> intSummary (foldl observe s xs) (intsOf xs)"
  proof
    assume k: "k = IntKind"
    then obtain v where x: "x = IntStat v" using assms(1) xs by (cases x) simp_all
    have "intSummary (foldl observe (observe s x) rest) ([v] @ intsOf rest)"
      using assms(1,2) k xs by (intro fold_int) (simp_all add: x observe_def int_first)
    then show "intSummary (foldl observe s xs) (intsOf xs)" by (simp add: xs x)
  qed
  show "k = RealKind \<longrightarrow> realSummary (foldl observe s xs) (realsOf xs)"
  proof
    assume k: "k = RealKind"
    then obtain v where x: "x = RealStat v" using assms(1) xs by (cases x) simp_all
    have "realSummary (foldl observe (observe s x) rest) ([v] @ realsOf rest)"
      using assms(1,2) k xs by (intro fold_real) (simp_all add: x observe_def real_first)
    then show "realSummary (foldl observe s xs) (realsOf xs)" by (simp add: xs x)
  qed
  show "k = StrKind \<longrightarrow> strSummary (foldl observe s xs) (strsOf xs)"
  proof
    assume k: "k = StrKind"
    then obtain v where x: "x = StrStat v" using assms(1) xs by (cases x) simp_all
    have "strSummary (foldl observe (observe s x) rest) ([v] @ strsOf rest)"
      using assms(1,2) k xs by (intro fold_str) (simp_all add: x observe_def str_first)
    then show "strSummary (foldl observe s xs) (strsOf xs)" by (simp add: xs x)
  qed
qed

lemma column_core:
  assumes "convertColumn ext c freshStats vals buf = (Ok, s', b')"
  shows "nullCount s' = int (count_list vals AnyNil)"
    "s'\<lparr>nullCount := 0\<rparr> = foldl observe freshStats (convertedValues ext c vals)"
    "\<forall>x \<in> set (convertedValues ext c vals). kindOfValue x = kindOfConverter c"
proof -
  have z: "freshStats\<lparr>nullCount := 0\<rparr> = freshStats" "nullCount freshStats = 0"
    by (simp_all add: freshStats_def)
  show "nullCount s' = int (count_list vals AnyNil)"
    "s'\<lparr>nullCount := 0\<rparr> = foldl observe freshStats (convertedValues ext c vals)"
    "\<forall>x \<in> set (convertedValues ext c vals). kindOfValue x = kindOfConverter c"
    using convertColumn_stats [OF assms] by (simp_all add: z)
qed

lemma same_fields:
  assumes "s'\<lparr>nullCount := 0\<rparr> = t"
  shows "first s' = first t" "minIntVal s' = minIntVal t" "maxIntVal s' = maxIntVal t"
    "minRealVal s' = minRealVal t" "maxRealVal s' = maxRealVal t"
    "minStrVal s' = minStrVal t" "maxStrVal s' = maxStrVal t" "maxStrLen s' = maxStrLen t"
  using assms by auto

lemma column_summary:
  assumes "convertColumn ext c freshStats vals buf = (Ok, s', b')"
  shows "(first s' \<longleftrightarrow> convertedValues ext c vals = [])"
    "intsOf (convertedValues ext c vals) \<noteq> [] \<longrightarrow>
       intSummary s' (intsOf (convertedValues ext c vals))"
    "realsOf (convertedValues ext c vals) \<noteq> [] \<longrightarrow>
       realSummary s' (realsOf (convertedValues ext c vals))"
    "strsOf (convertedValues ext c vals) \<noteq> [] \<longrightarrow>
       strSummary s' (strsOf (convertedValues ext c vals))"
proof -
  let ?xs = "convertedValues ext c vals"
  let ?t = "foldl observe freshStats ?xs"
  note core = column_core [OF assms]
  note f = same_fields [OF core(2)]
  have fr: "first freshStats" by (simp add: freshStats_def)
  have i: "intSummary s' is = intSummary ?t is" for "is"
    by (simp add: intSummary_def f)
  have r: "realSummary s' rs = realSummary ?t rs" for rs
    by (simp add: realSummary_def f)
  have s: "strSummary s' ss = strSummary ?t ss" for ss
    by (simp add: strSummary_def f)
  show "(first s' \<longleftrightarrow> ?xs = [])"
       "intsOf ?xs \<noteq> [] \<longrightarrow> intSummary s' (intsOf ?xs)"
       "realsOf ?xs \<noteq> [] \<longrightarrow> realSummary s' (realsOf ?xs)"
       "strsOf ?xs \<noteq> [] \<longrightarrow> strSummary s' (strsOf ?xs)"
  proof -
    show "intsOf ?xs \<noteq> [] \<longrightarrow> intSummary s' (intsOf ?xs)"
    proof (cases "kindOfConverter c")
      case IntKind
      then show ?thesis
        using fold_from_first(1) [OF core(3) fr, of ] kind_int(3) [of ?xs] core(3)
        by (auto simp add: i)
    next
      case RealKind
      then show ?thesis using kind_real(1) [of ?xs] core(3) by simp
    next
      case StrKind
      then show ?thesis using kind_str(1) [of ?xs] core(3) by simp
    qed
    show "realsOf ?xs \<noteq> [] \<longrightarrow> realSummary s' (realsOf ?xs)"
    proof (cases "kindOfConverter c")
      case RealKind
      then show ?thesis
        using fold_from_first(2) [OF core(3) fr, of ] kind_real(3) [of ?xs] core(3)
        by (auto simp add: r)
    next
      case IntKind
      then show ?thesis using kind_int(1) [of ?xs] core(3) by simp
    next
      case StrKind
      then show ?thesis using kind_str(2) [of ?xs] core(3) by simp
    qed
    show "strsOf ?xs \<noteq> [] \<longrightarrow> strSummary s' (strsOf ?xs)"
    proof (cases "kindOfConverter c")
      case StrKind
      then show ?thesis
        using fold_from_first(3) [OF core(3) fr, of ] kind_str(3) [of ?xs] core(3)
        by (auto simp add: s)
    next
      case IntKind
      then show ?thesis using kind_int(2) [of ?xs] core(3) by simp
    next
      case RealKind
      then show ?thesis using kind_real(2) [of ?xs] core(3) by simp
    qed
    show "(first s' \<longleftrightarrow> ?xs = [])"
    proof (cases "?xs = []")
      case True
      then show ?thesis by (simp add: f fr)
    next
      case False
      have "\<not> first ?t"
      proof (cases "kindOfConverter c")
        case IntKind
        then show ?thesis
          using fold_from_first(1) [OF core(3) fr False] by (simp add: intSummary_def)
      next
        case RealKind
        then show ?thesis
          using fold_from_first(2) [OF core(3) fr False] by (simp add: realSummary_def)
      next
        case StrKind
        then show ?thesis
          using fold_from_first(3) [OF core(3) fr False] by (simp add: strSummary_def)
      qed
      then show ?thesis using False by (simp add: f)
    qed
  qed
qed

lemma first_value:
  assumes "first stats" "val \<noteq> AnyNil"
    "ValidateAndConvert ext c stats val buf0 = (Ok, s2, b2)"
  shows "\<not> first s2 \<and>
     (\<exists>x. convertedValue ext c val = Some x \<and>
        (case x of
           IntStat v \<Rightarrow> minIntVal s2 = v \<and> maxIntVal s2 = v
         | RealStat v \<Rightarrow> minRealVal s2 = v \<and> maxRealVal s2 = v
         | StrStat v \<Rightarrow> minStrVal s2 = v \<and> maxStrVal s2 = v \<and> maxStrLen s2 = int (length v)))"
proof -
  from converter_step [OF assms(2), of ext c] refused_not_Ok [of ext c val _ stats buf0 s2 b2]
    assms(3)
  obtain x f where a: "accepted ext c val x f" by blast
  have s2: "s2 = observe stats x" using a assms(3) by (rule accepted_Ok)
  have cv: "convertedValue ext c val = Some x" using a by (rule accepted_convertedValue)
  show ?thesis
    using assms(1)
    by (cases x)
       (simp_all add: s2 cv observe_def updateIntStats_def updateRealStats_def updateStrStats_def)
qed

text \<open>
  C1. For every converter and every sequence of inputs run on fresh statistics, when
  every call returns success: \<^verbatim>\<open>nullCount\<close> is the number of nil inputs; \<^verbatim>\<open>first\<close>
  is still set exactly when no value was converted; otherwise \<^verbatim>\<open>minIntVal\<close> and
  \<^verbatim>\<open>maxIntVal\<close> are the least and the greatest converted number under the signed
  comparison, \<^verbatim>\<open>minRealVal\<close> and \<^verbatim>\<open>maxRealVal\<close> the least and the greatest
  converted float under the order of Go's \<^verbatim>\<open>min\<close> and \<^verbatim>\<open>max\<close> (both NaN when a
  converted float is NaN), \<^verbatim>\<open>minStrVal\<close> and \<^verbatim>\<open>maxStrVal\<close> the least and the
  greatest converted byte sequence in lexicographic order, and \<^verbatim>\<open>maxStrLen\<close> the
  greatest length among them. On the first value that is not nil, a successful call
  clears \<^verbatim>\<open>first\<close> and sets both minimum and maximum to the converted value.
\<close>

theorem statistics_of_column:
  assumes "convertColumn ext c freshStats vals buf = (Ok, stats', buf')"
  shows
    "nullCount stats' = int (count_list vals AnyNil) \<and>
     (first stats' \<longleftrightarrow> convertedValues ext c vals = []) \<and>
     (intsOf (convertedValues ext c vals) \<noteq> [] \<longrightarrow>
        minIntVal stats' \<in> set (intsOf (convertedValues ext c vals)) \<and>
        sint (minIntVal stats') = Min (sint ` set (intsOf (convertedValues ext c vals))) \<and>
        maxIntVal stats' \<in> set (intsOf (convertedValues ext c vals)) \<and>
        sint (maxIntVal stats') = Max (sint ` set (intsOf (convertedValues ext c vals)))) \<and>
     (realsOf (convertedValues ext c vals) \<noteq> [] \<and>
      (\<forall>r \<in> set (realsOf (convertedValues ext c vals)). \<not> isNaN r) \<longrightarrow>
        minRealVal stats' \<in> set (realsOf (convertedValues ext c vals)) \<and>
        float_key (minRealVal stats')
          = Min (float_key ` set (realsOf (convertedValues ext c vals))) \<and>
        maxRealVal stats' \<in> set (realsOf (convertedValues ext c vals)) \<and>
        float_key (maxRealVal stats')
          = Max (float_key ` set (realsOf (convertedValues ext c vals)))) \<and>
     ((\<exists>r \<in> set (realsOf (convertedValues ext c vals)). isNaN r) \<longrightarrow>
        isNaN (minRealVal stats') \<and> isNaN (maxRealVal stats')) \<and>
     (strsOf (convertedValues ext c vals) \<noteq> [] \<longrightarrow>
        minStrVal stats' = Min (set (strsOf (convertedValues ext c vals))) \<and>
        maxStrVal stats' = Max (set (strsOf (convertedValues ext c vals))) \<and>
        maxStrLen stats'
          = Max ((\<lambda>v. int (length v)) ` set (strsOf (convertedValues ext c vals)))) \<and>
     (\<forall>stats val buf0 s2 b2.
        first stats \<and> val \<noteq> AnyNil \<and>
        ValidateAndConvert ext c stats val buf0 = (Ok, s2, b2) \<longrightarrow>
          \<not> first s2 \<and>
          (\<exists>x. convertedValue ext c val = Some x \<and>
             (case x of
                IntStat v \<Rightarrow> minIntVal s2 = v \<and> maxIntVal s2 = v
              | RealStat v \<Rightarrow> minRealVal s2 = v \<and> maxRealVal s2 = v
              | StrStat v \<Rightarrow>
                  minStrVal s2 = v \<and> maxStrVal s2 = v \<and> maxStrLen s2 = int (length v))))"
proof -
  note core = column_core [OF assms]
  note sm = column_summary [OF assms]
  have a: "nullCount stats' = int (count_list vals AnyNil)" by (rule core(1))
  have b: "first stats' \<longleftrightarrow> convertedValues ext c vals = []" by (rule sm(1))
  have i: "intsOf (convertedValues ext c vals) \<noteq> [] \<longrightarrow>
        minIntVal stats' \<in> set (intsOf (convertedValues ext c vals)) \<and>
        sint (minIntVal stats') = Min (sint ` set (intsOf (convertedValues ext c vals))) \<and>
        maxIntVal stats' \<in> set (intsOf (convertedValues ext c vals)) \<and>
        sint (maxIntVal stats') = Max (sint ` set (intsOf (convertedValues ext c vals)))"
    using sm(2) by (simp add: intSummary_def)
  have r1: "realsOf (convertedValues ext c vals) \<noteq> [] \<and>
      (\<forall>r \<in> set (realsOf (convertedValues ext c vals)). \<not> isNaN r) \<longrightarrow>
        minRealVal stats' \<in> set (realsOf (convertedValues ext c vals)) \<and>
        float_key (minRealVal stats')
          = Min (float_key ` set (realsOf (convertedValues ext c vals))) \<and>
        maxRealVal stats' \<in> set (realsOf (convertedValues ext c vals)) \<and>
        float_key (maxRealVal stats')
          = Max (float_key ` set (realsOf (convertedValues ext c vals)))"
    using sm(3) by (auto simp add: realSummary_def split: if_splits)
  have r2: "(\<exists>r \<in> set (realsOf (convertedValues ext c vals)). isNaN r) \<longrightarrow>
        isNaN (minRealVal stats') \<and> isNaN (maxRealVal stats')"
    using sm(3) by (auto simp add: realSummary_def split: if_splits)
  have s: "strsOf (convertedValues ext c vals) \<noteq> [] \<longrightarrow>
        minStrVal stats' = Min (set (strsOf (convertedValues ext c vals))) \<and>
        maxStrVal stats' = Max (set (strsOf (convertedValues ext c vals))) \<and>
        maxStrLen stats'
          = Max ((\<lambda>v. int (length v)) ` set (strsOf (convertedValues ext c vals)))"
    using sm(4) by (simp add: strSummary_def)
  have f: "\<forall>stats val buf0 s2 b2.
        first stats \<and> val \<noteq> AnyNil \<and>
        ValidateAndConvert ext c stats val buf0 = (Ok, s2, b2) \<longrightarrow>
          \<not> first s2 \<and>
          (\<exists>x. convertedValue ext c val = Some x \<and>
             (case x of
                IntStat v \<Rightarrow> minIntVal s2 = v \<and> maxIntVal s2 = v
              | RealStat v \<Rightarrow> minRealVal s2 = v \<and> maxRealVal s2 = v
              | StrStat v \<Rightarrow>
                  minStrVal s2 = v \<and> maxStrVal s2 = v \<and> maxStrLen s2 = int (length v)))"
    using first_value [of _ _ ext c] by blast
  from a b i r1 r2 s f show ?thesis by (intro conjI)
qed

lemma hasRoom_stored_columnOf:
  "hasRoom (stored (columnOf k 3) c)"
  "hasRoom (stored (stored (columnOf k 3) c) c')"
  by (simp_all add: hasRoom_def stored_def columnOf_def Prepare_def cellIndex_def)

lemma bool_example_true:
  "hasRoom buf \<Longrightarrow> ValidateAndConvert sampleExternals boolColumn stats (AnyBool b) buf
     = (Ok, updateIntStats stats (if b then 1 else 0),
        stored buf (Level (BooleanValue b) 0 1 (columnIndex buf)))"
  by (simp add: boolColumn_def boolConverter_ValidateAndConvert_def sampleExternals_def
      written_def WriteBool_def WriteValue_hasRoom int128_FromUint64_def)

lemma bool_example_nil:
  "hasRoom buf \<Longrightarrow> ValidateAndConvert sampleExternals boolColumn stats AnyNil buf
     = (Ok, stats\<lparr>nullCount := nullCount stats + 1\<rparr>, stored buf NullValue)"
  using ValidateAndConvert_nil [of sampleExternals boolColumn stats buf]
  by (simp add: boolColumn_def nullValue_cases)

lemma hasRoom_columnOf3: "hasRoom (columnOf k 3)"
  using hasRoom_columnOf [of k 2] by (simp add: numeral_3_eq_3)

lemma bool_column_example:
  "convertColumn sampleExternals boolColumn freshStats [AnyBool True, AnyNil, AnyBool False]
       (columnOf typedBufferImpl 3)
     = (Ok,
        freshStats\<lparr>first := False, nullCount := 1, minIntVal := 0, maxIntVal := 1\<rparr>,
        stored (stored (stored (columnOf typedBufferImpl 3) (Level (BooleanValue True) 0 1 0))
          NullValue) (Level (BooleanValue False) 0 1 0))"
  by (simp add: bool_example_true bool_example_nil hasRoom_columnOf3 hasRoom_stored_columnOf
      updateIntStats_def freshStats_def int128_Min_def int128_Max_def int128_Less_def)
     (simp add: stored_def columnOf_def Prepare_def)

lemma bool_values_example:
  "convertedValues sampleExternals boolColumn [AnyBool True, AnyNil, AnyBool False]
     = [IntStat 1, IntStat 0]"
  by (simp add: convertedValues_def map_filter_simps convertedValue_def bool_example_true
      bool_example_nil hasRoom_columnOf matrix_stored_columnOf)

theorem statistics_of_column_witness:
  "convertColumn sampleExternals boolColumn freshStats [AnyBool True, AnyNil, AnyBool False]
       (columnOf typedBufferImpl 3)
     = (Ok,
        freshStats\<lparr>first := False, nullCount := 1, minIntVal := 0, maxIntVal := 1\<rparr>,
        stored (stored (stored (columnOf typedBufferImpl 3) (Level (BooleanValue True) 0 1 0))
          NullValue) (Level (BooleanValue False) 0 1 0)) \<and>
   convertedValues sampleExternals boolColumn [AnyBool True, AnyNil, AnyBool False]
     = [IntStat 1, IntStat 0] \<and>
   nullCount (freshStats\<lparr>first := False, nullCount := 1, minIntVal := 0, maxIntVal := 1\<rparr>)
     = int (count_list [AnyBool True, AnyNil, AnyBool False] AnyNil) \<and>
   \<not> first (freshStats\<lparr>first := False, nullCount := 1, minIntVal := 0, maxIntVal := 1\<rparr>) \<and>
   sint (minIntVal (freshStats\<lparr>first := False, nullCount := 1, minIntVal := 0, maxIntVal := 1\<rparr>))
     = Min (sint ` set [1 :: Num, 0]) \<and>
   sint (maxIntVal (freshStats\<lparr>first := False, nullCount := 1, minIntVal := 0, maxIntVal := 1\<rparr>))
     = Max (sint ` set [1 :: Num, 0])"
  using statistics_of_column [OF bool_column_example] bool_column_example
  by (simp add: bool_values_example)

end
